theory Spec2Isabelle
  imports Main "HOL-Library.AList"
begin

section \<open>Configuration values\<close>

text \<open>
  The configuration engine (\<^verbatim>\<open>configurationModels.ts\<close> and \<^verbatim>\<open>configurationRegistry.ts\<close>)
  works on parsed settings documents: JSON values. A JavaScript object is the association
  list of its own properties in insertion order; \<open>map_of\<close> reads a property (\<open>None\<close> is
  \<^verbatim>\<open>undefined\<close>), \<open>AList.update\<close> is the assignment \<^verbatim>\<open>o[k] = v\<close> (in place when the key is
  there, appended otherwise) and \<open>AList.delete\<close> is \<^verbatim>\<open>delete o[k]\<close>. Numbers are integers
  here. A string is the list of its code units, each of them below 256 here. A property
  never holds \<^verbatim>\<open>undefined\<close>: where the source would store it, the property is left out,
  which reads the same. \<^verbatim>\<open>objects.deepClone\<close> is the identity on these immutable values.

  An array is the list of its elements together with the list of its named properties. A
  parsed document has arrays without holes and without named properties; the assignments
  of \<^verbatim>\<open>mergeContents\<close> to an array make both, so an element is optional: \<open>None\<close> is a hole,
  an index below the length that holds nothing.

  A plain object inherits the members of \<^verbatim>\<open>Object.prototype\<close>: a read \<^verbatim>\<open>o[k]\<close> finds them
  when \<open>k\<close> is no own property of the object, and an assignment to \<^verbatim>\<open>__proto__\<close> replaces
  the prototype instead of making a property. The dictionaries of the registry, whose keys
  are handed in by extensions, are read with these members (\<open>get_property\<close> below). The
  objects handed in are taken to have no own property named \<^verbatim>\<open>__proto__\<close>, and the
  property names inside a settings document to be none of the twelve names listed there.
\<close>

datatype json =
    JNull
  | JBool bool
  | JNum int
  | JStr string
  | JArr "json option list" "(string \<times> json) list"
  | JObj "(string \<times> json) list"

type_synonym obj = "(string \<times> json) list"

text \<open>\<^verbatim>\<open>types.isObject\<close>: of type object, but not null, not an array.\<close>

fun isObject :: "json \<Rightarrow> bool" where
  "isObject (JObj _) = True"
| "isObject _ = False"

text \<open>\<^verbatim>\<open>typeof v === 'object'\<close>, which also holds of \<^verbatim>\<open>null\<close> and of arrays.\<close>

fun typeof_object :: "json \<Rightarrow> bool" where
  "typeof_object JNull = True"
| "typeof_object (JArr _ _) = True"
| "typeof_object (JObj _) = True"
| "typeof_object _ = False"

text \<open>JavaScript truthiness, as tested by \<^verbatim>\<open>if (v)\<close>.\<close>

fun truthy :: "json \<Rightarrow> bool" where
  "truthy JNull = False"
| "truthy (JBool b) = b"
| "truthy (JNum n) = (n \<noteq> 0)"
| "truthy (JStr s) = (s \<noteq> [])"
| "truthy (JArr _ _) = True"
| "truthy (JObj _) = True"

text \<open>\<^verbatim>\<open>Object.keys\<close> of an object: every property once.\<close>

definition object_keys :: "obj \<Rightarrow> string list" where
  "object_keys ob = remdups (map fst ob)"

text \<open>
  What the source can raise: \<^verbatim>\<open>TypeError\<close> (\<^verbatim>\<open>key in null\<close>, \<^verbatim>\<open>Object.keys(null)\<close>, an
  assignment to a property of a number, a value that has no primitive value) and
  \<^verbatim>\<open>RangeError\<close> (an array length that is no length).
\<close>

datatype error = TypeError | RangeError

subsection \<open>Property names and array indices\<close>

text \<open>The numeral of a number, as \<^verbatim>\<open>String(n)\<close> writes a natural number.\<close>

fun decimal :: "nat \<Rightarrow> string" where
  "decimal n =
     (if n < 10 then [''0123456789'' ! n]
      else decimal (n div 10) @ [''0123456789'' ! (n mod 10)])"

declare decimal.simps [simp del]

text \<open>
  The value of a digit in a base up to 16, in either case of the letters, and the value of
  a string of such digits, read from the left onto the accumulator.
\<close>

fun position :: "'a \<Rightarrow> 'a list \<Rightarrow> nat option" where
  "position x [] = None"
| "position x (y # ys) = (if x = y then Some 0 else map_option Suc (position x ys))"

definition digit_of :: "nat \<Rightarrow> char \<Rightarrow> nat option" where
  "digit_of base c =
     (case (case position c ''0123456789abcdef'' of
              Some d \<Rightarrow> Some d
            | None \<Rightarrow> position c ''0123456789ABCDEF'') of
        None \<Rightarrow> None
      | Some d \<Rightarrow> if d < base then Some d else None)"

fun number_of_digits :: "nat \<Rightarrow> nat \<Rightarrow> string \<Rightarrow> nat option" where
  "number_of_digits base acc [] = Some acc"
| "number_of_digits base acc (c # cs) =
     (case digit_of base c of
        None \<Rightarrow> None
      | Some d \<Rightarrow> number_of_digits base (acc * base + d) cs)"

text \<open>
  A property name is an array index when it is the numeral, without sign or leading zero,
  of a number below \<open>2\<^sup>3\<^sup>2 - 1\<close>.
\<close>

definition array_index :: "string \<Rightarrow> nat option" where
  "array_index key =
     (if key = [] \<or> (hd key = CHR ''0'' \<and> key \<noteq> ''0'') then None
      else (case number_of_digits 10 0 key of
              None \<Rightarrow> None
            | Some n \<Rightarrow> if n < 2 ^ 32 - 1 then Some n else None))"

text \<open>
  The order in which \<^verbatim>\<open>Object.keys\<close> lists the own properties: the array indices in
  ascending order, then the other names in insertion order.
\<close>

definition own_keys :: "obj \<Rightarrow> string list" where
  "own_keys ob =
     sort_key (\<lambda>key. the (array_index key)) (filter (\<lambda>key. array_index key \<noteq> None) (object_keys ob))
     @ filter (\<lambda>key. array_index key = None) (object_keys ob)"

text \<open>
  The own enumerable properties of a value, as \<^verbatim>\<open>Object.keys\<close> and \<^verbatim>\<open>for...in\<close> meet them:
  of an array the elements it holds, under their indices, and then the named properties;
  of a string its code units; of a number, a boolean and \<^verbatim>\<open>null\<close> none (where the source
  does not raise on \<^verbatim>\<open>null\<close> before).
\<close>

definition array_entries :: "json option list \<Rightarrow> obj \<Rightarrow> obj" where
  "array_entries es ps =
     List.map_filter (\<lambda>(i, e). map_option (Pair (decimal i)) e) (enumerate 0 es) @ ps"

definition string_entries :: "string \<Rightarrow> obj" where
  "string_entries s = map (\<lambda>(i, c). (decimal i, JStr [c])) (enumerate 0 s)"

fun own_properties :: "json \<Rightarrow> obj" where
  "own_properties (JObj ob) = ob"
| "own_properties (JArr es ps) = array_entries es ps"
| "own_properties (JStr s) = string_entries s"
| "own_properties _ = []"

subsection \<open>Strings read as numbers\<close>

text \<open>\<^verbatim>\<open>String.prototype.trim\<close>: white space and line terminators, among the code units below 256.\<close>

definition is_space :: "char \<Rightarrow> bool" where
  "is_space c \<longleftrightarrow>
     c \<in> set [CHR 0x09, CHR 0x0A, CHR 0x0B, CHR 0x0C, CHR 0x0D, CHR 0x20, CHR 0xA0]"

definition trim :: "string \<Rightarrow> string" where
  "trim s = rev (dropWhile is_space (rev (dropWhile is_space s)))"

text \<open>
  An assignment to the \<^verbatim>\<open>length\<close> of an array converts the value to a number and raises
  \<^verbatim>\<open>RangeError\<close> unless that number is an integer from 0 to \<open>2\<^sup>3\<^sup>2 - 1\<close>. What follows
  decides this for a string. The number of a string is read by
  the grammar of numeric strings and rounded to the nearest double, ties to the even
  significand. Every integer \<open>c\<close> of that range is a double with an even significand, its
  neighbours are \<open>c + 2\<^sup>k\<^sup>-\<^sup>5\<^sup>2\<close> above and \<open>c - 2\<^sup>k\<^sup>-\<^sup>5\<^sup>2\<close> below, where \<open>2\<^sup>k \<le> c < 2\<^sup>k\<^sup>+\<^sup>1\<close> (the
  neighbour below a power of two is at half that distance), and the neighbour of 0 is
  \<open>2\<^sup>-\<^sup>1\<^sup>0\<^sup>7\<^sup>4\<close>. So the positive rational \<open>num / den\<close> rounds to \<open>c\<close> when it lies between the
  midpoints to these neighbours, bounds included.
\<close>

fun floor_log2 :: "nat \<Rightarrow> nat" where
  "floor_log2 n = (if n < 2 then 0 else Suc (floor_log2 (n div 2)))"

declare floor_log2.simps [simp del]

definition rounds_to :: "nat \<Rightarrow> nat \<Rightarrow> nat \<Rightarrow> bool" where
  "rounds_to num den c \<longleftrightarrow>
     (if c = 0 then num * 2 ^ 1075 \<le> den
      else (let k = floor_log2 c;
                above = 2 ^ (k + 1);
                below = (if c = 2 ^ k then 2 ^ k else 2 ^ (k + 1))
            in (c * 2 ^ 54 - below) * den \<le> num * 2 ^ 54
               \<and> num * 2 ^ 54 \<le> (c * 2 ^ 54 + above) * den))"

definition length_of_rational :: "nat \<Rightarrow> nat \<Rightarrow> nat option" where
  "length_of_rational num den =
     (let f = num div den
      in if f < 2 ^ 32 \<and> rounds_to num den f then Some f
         else if f + 1 < 2 ^ 32 \<and> rounds_to num den (f + 1) then Some (f + 1)
         else None)"

text \<open>
  The grammar of numeric strings: an exponent part is \<^verbatim>\<open>e\<close> or \<^verbatim>\<open>E\<close>, an optional sign and
  digits; an unsigned decimal literal is digits with an optional fraction, or a fraction
  alone, and an optional exponent part; it is read here as a mantissa and a power of ten.
  \<^verbatim>\<open>Infinity\<close> is no length and is left to fail here.
\<close>

definition is_digit :: "char \<Rightarrow> bool" where
  "is_digit c \<longleftrightarrow> digit_of 10 c \<noteq> None"

definition exponent_part :: "string \<Rightarrow> int option" where
  "exponent_part s =
     (case s of
        [] \<Rightarrow> Some 0
      | c # r \<Rightarrow>
          if c = CHR ''e'' \<or> c = CHR ''E''
          then (let negative = (r \<noteq> [] \<and> hd r = CHR ''-'');
                    ds = (if r \<noteq> [] \<and> (hd r = CHR ''-'' \<or> hd r = CHR ''+'') then tl r else r)
                in if ds = [] then None
                   else (case number_of_digits 10 0 ds of
                           None \<Rightarrow> None
                         | Some n \<Rightarrow> Some (if negative then - int n else int n)))
          else None)"

definition decimal_literal :: "string \<Rightarrow> (nat \<times> int) option" where
  "decimal_literal s =
     (let ip = takeWhile is_digit s;
          r1 = dropWhile is_digit s;
          dot = (r1 \<noteq> [] \<and> hd r1 = CHR ''.'');
          fp = (if dot then takeWhile is_digit (tl r1) else []);
          r2 = (if dot then dropWhile is_digit (tl r1) else r1)
      in if ip = [] \<and> fp = [] then None
         else (case (number_of_digits 10 0 (ip @ fp), exponent_part r2) of
                 (Some m, Some e) \<Rightarrow> Some (m, e - int (length fp))
               | _ \<Rightarrow> None))"

text \<open>
  The array length that a string stands for, if any: the empty string is 0, a literal in
  base 16, 8 or 2 has a prefix and no sign, and a negative decimal literal is a length only
  when it rounds to zero.
\<close>

definition radix_prefix :: "string \<Rightarrow> nat option" where
  "radix_prefix t =
     (if take 2 t = ''0x'' \<or> take 2 t = ''0X'' then Some 16
      else if take 2 t = ''0o'' \<or> take 2 t = ''0O'' then Some 8
      else if take 2 t = ''0b'' \<or> take 2 t = ''0B'' then Some 2
      else None)"

definition length_of_string :: "string \<Rightarrow> nat option" where
  "length_of_string s =
     (let t = trim s
      in if t = [] then Some 0
         else (case radix_prefix t of
                 Some base \<Rightarrow>
                   (if drop 2 t = [] then None
                    else (case number_of_digits base 0 (drop 2 t) of
                            None \<Rightarrow> None
                          | Some n \<Rightarrow> if n < 2 ^ 32 then Some n else None))
               | None \<Rightarrow>
                   (let negative = (hd t = CHR ''-'');
                        body = (if hd t = CHR ''-'' \<or> hd t = CHR ''+'' then tl t else t)
                    in case decimal_literal body of
                         None \<Rightarrow> None
                       | Some (m, e) \<Rightarrow>
                           (let num = (if 0 \<le> e then m * 10 ^ nat e else m);
                                den = (if 0 \<le> e then 1 else 10 ^ nat (- e))
                            in if m = 0 then Some 0
                               else if negative
                               then (if rounds_to num den 0 then Some 0 else None)
                               else length_of_rational num den))))"

subsection \<open>Assignments to an array\<close>

text \<open>
  The own property of an array under a name: an element, the length, or a named property.
\<close>

definition array_get :: "json option list \<Rightarrow> obj \<Rightarrow> string \<Rightarrow> json option" where
  "array_get es ps key =
     (case array_index key of
        Some i \<Rightarrow> if i < length es then es ! i else None
      | None \<Rightarrow> if key = ''length'' then Some (JNum (int (length es))) else map_of ps key)"

text \<open>
  The string of a value, as the conversion of an array to a number needs it. An array is
  converted by its \<^verbatim>\<open>toString\<close>, which joins the strings of the elements with commas, a
  hole and \<^verbatim>\<open>null\<close> giving the empty string; when the array has an own property \<^verbatim>\<open>join\<close>,
  which is no function in a document, the string is \<^verbatim>\<open>[object Array]\<close>. An object gives
  \<^verbatim>\<open>[object Object]\<close>. An own property \<^verbatim>\<open>toString\<close>, not callable either, leaves the value
  without a primitive value: \<^verbatim>\<open>TypeError\<close>. From \<open>10\<^sup>2\<^sup>1\<close> on the source writes a number with
  an exponent, which reads back as a number of that size, as the numeral here does.
\<close>

fun to_string :: "json \<Rightarrow> error + string"
and element_string :: "json option \<Rightarrow> error + string"
and join :: "json option list \<Rightarrow> error + string" where
  "to_string JNull = Inr ''null''"
| "to_string (JBool b) = Inr (if b then ''true'' else ''false'')"
| "to_string (JNum n) = Inr (if n < 0 then CHR ''-'' # decimal (nat (- n)) else decimal (nat n))"
| "to_string (JStr s) = Inr s"
| "to_string (JObj ob) =
     (if map_of ob ''toString'' \<noteq> None then Inl TypeError else Inr ''[object Object]'')"
| "to_string (JArr es ps) =
     (if map_of ps ''toString'' \<noteq> None then Inl TypeError
      else if map_of ps ''join'' \<noteq> None then Inr ''[object Array]''
      else join es)"
| "element_string None = Inr []"
| "element_string (Some JNull) = Inr []"
| "element_string (Some v) = to_string v"
| "join [] = Inr []"
| "join [e] = element_string e"
| "join (e # e' # es) =
     (case element_string e of
        Inl err \<Rightarrow> Inl err
      | Inr a \<Rightarrow> (case join (e' # es) of Inl err \<Rightarrow> Inl err | Inr b \<Rightarrow> Inr (a @ '','' @ b)))"

definition array_length_of :: "json \<Rightarrow> error + nat" where
  "array_length_of v =
     (case v of
        JNull \<Rightarrow> Inr 0
      | JBool b \<Rightarrow> Inr (if b then 1 else 0)
      | JNum n \<Rightarrow> if 0 \<le> n \<and> n < 2 ^ 32 then Inr (nat n) else Inl RangeError
      | _ \<Rightarrow>
          (case to_string v of
             Inl err \<Rightarrow> Inl err
           | Inr s \<Rightarrow> (case length_of_string s of None \<Rightarrow> Inl RangeError | Some n \<Rightarrow> Inr n)))"

text \<open>
  The assignment \<^verbatim>\<open>a[key] = v\<close> to an array: under an index the element is set, and the
  array grows with holes when the index is beyond its end; under \<^verbatim>\<open>length\<close> the array is
  cut or grows with holes; under another name a named property is set.
\<close>

definition array_set ::
  "json option list \<Rightarrow> obj \<Rightarrow> string \<Rightarrow> json \<Rightarrow> error + json option list \<times> obj" where
  "array_set es ps key v =
     (case array_index key of
        Some i \<Rightarrow>
          Inr (if i < length es then es[i := Some v]
               else es @ replicate (i - length es) None @ [Some v], ps)
      | None \<Rightarrow>
          if key = ''length''
          then (case array_length_of v of
                  Inl err \<Rightarrow> Inl err
                | Inr n \<Rightarrow> Inr (take n es @ replicate (n - length es) None, ps))
          else Inr (es, AList.update key v ps))"

subsection \<open>Helpers of \<^verbatim>\<open>configuration.ts\<close>\<close>

text \<open>\<^verbatim>\<open>String.prototype.split('.')\<close>.\<close>

fun split_dot :: "string \<Rightarrow> string list" where
  "split_dot [] = [[]]"
| "split_dot (c # cs) =
     (if c = CHR ''.'' then [] # split_dot cs
      else (case split_dot cs of [] \<Rightarrow> [[c]] | w # ws \<Rightarrow> (c # w) # ws))"

text \<open>
  Modelled from the spec: \<^verbatim>\<open>getConfigurationValue\<close> of \<^verbatim>\<open>configuration.ts\<close>, which is not
  among the sources. The spec: "walks the nested tree by splitting path on \<^verbatim>\<open>.\<close>; returns
  the subtree/scalar or absence". The tree is "string key to nested tree or scalar", so a
  path that continues below a scalar (an array counts as one) is absent.
\<close>

fun accessSetting :: "json \<Rightarrow> string list \<Rightarrow> json option" where
  "accessSetting v [] = Some v"
| "accessSetting (JObj kvs) (c # cs) =
     (case map_of kvs c of None \<Rightarrow> None | Some v \<Rightarrow> accessSetting v cs)"
| "accessSetting _ (c # cs) = None"

definition getConfigurationValue :: "obj \<Rightarrow> string \<Rightarrow> json option" where
  "getConfigurationValue config settingPath = accessSetting (JObj config) (split_dot settingPath)"

text \<open>
  Modelled from the spec: \<^verbatim>\<open>addToValueTree\<close> of \<^verbatim>\<open>configuration.ts\<close>, not among the sources.
  The spec: the tree is built by a "nested build" from dotted keys, and "conflicting keys at
  tree-construction time (e.g., \<^verbatim>\<open>a\<close> and \<^verbatim>\<open>a.b\<close> both present) are reported via a
  conflict callback but resolved by a deterministic last-write policy, never by raising":
  the later write replaces a scalar that stands in its way.
\<close>

fun addToValueTree_path :: "obj \<Rightarrow> string list \<Rightarrow> json \<Rightarrow> obj" where
  "addToValueTree_path root [] v = root"
| "addToValueTree_path root [c] v = AList.update c v root"
| "addToValueTree_path root (c # cs) v =
     AList.update c
       (JObj (addToValueTree_path (case map_of root c of Some (JObj sub) \<Rightarrow> sub | _ \<Rightarrow> []) cs v))
       root"

definition addToValueTree :: "obj \<Rightarrow> string \<Rightarrow> json \<Rightarrow> obj" where
  "addToValueTree settingsTreeRoot key v = addToValueTree_path settingsTreeRoot (split_dot key) v"

text \<open>
  Modelled from the spec: \<^verbatim>\<open>removeFromValueTree\<close> of \<^verbatim>\<open>configuration.ts\<close>, not among the
  sources. The spec asks that the tree stay "reproducible by folding keys and dotted-value
  pairs into a tree" after any mutation, so the value at the path is deleted and a parent
  object left empty by the deletion is deleted with it; "removing a non-existent key is a
  no-op".
\<close>

fun removeFromValueTree_path :: "obj \<Rightarrow> string list \<Rightarrow> obj" where
  "removeFromValueTree_path valueTree [] = valueTree"
| "removeFromValueTree_path valueTree [c] = AList.delete c valueTree"
| "removeFromValueTree_path valueTree (c # cs) =
     (case map_of valueTree c of
        Some (JObj sub) \<Rightarrow>
          (let sub' = removeFromValueTree_path sub cs
           in if sub' = [] then AList.delete c valueTree
              else AList.update c (JObj sub') valueTree)
      | _ \<Rightarrow> valueTree)"

definition removeFromValueTree :: "obj \<Rightarrow> string \<Rightarrow> obj" where
  "removeFromValueTree valueTree key = removeFromValueTree_path valueTree (split_dot key)"

text \<open>
  Modelled from the spec: \<^verbatim>\<open>toValuesTree\<close> of \<^verbatim>\<open>configuration.ts\<close>, not among the sources:
  the nested build of a tree from the flat dotted keys of a raw object, in key order.
\<close>

definition toValuesTree :: "obj \<Rightarrow> obj" where
  "toValuesTree properties =
     fold (\<lambda>key root. case map_of properties key of None \<Rightarrow> root
                       | Some v \<Rightarrow> addToValueTree root key v)
          (object_keys properties) []"

subsection \<open>Helpers of \<^verbatim>\<open>arrays.ts\<close>\<close>

text \<open>
  Modelled from the spec: \<^verbatim>\<open>arrays.distinct\<close> of \<^verbatim>\<open>arrays.ts\<close>, not among the sources,
  keeps the first occurrence of every element; \<^verbatim>\<open>arrays.equals\<close> on string arrays is
  equality of the lists. Both follow their use in \<^verbatim>\<open>configurationModels.ts\<close>.
\<close>

definition push_new :: "'a \<Rightarrow> 'a list \<Rightarrow> 'a list" where
  "push_new x xs = (if x \<in> set xs then xs else xs @ [x])"

definition distinct_first :: "'a list \<Rightarrow> 'a list" where
  "distinct_first xs = fold push_new xs []"

section \<open>The configuration model\<close>

text \<open>
  \<^verbatim>\<open>IOverrides\<close>: one override section. Its fields are \<^verbatim>\<open>identifiers\<close>, \<^verbatim>\<open>keys\<close> and
  \<^verbatim>\<open>contents\<close> in the source; the last two carry a prefix here, the plain names being the
  fields of the model.
\<close>

record IOverrides =
  identifiers :: "string list"
  ov_keys :: "string list"
  ov_contents :: obj

text \<open>
  \<^verbatim>\<open>ConfigurationModel\<close>. The field \<^verbatim>\<open>raw\<close> (the unmerged source documents) is read by
  \<^verbatim>\<open>inspect\<close> only and is left out, with \<^verbatim>\<open>inspect\<close>; the log service only receives
  messages.
\<close>

record ConfigurationModel =
  contents :: obj
  keys :: "string list"
  overrides :: "IOverrides list"

definition createEmptyModel :: ConfigurationModel where
  "createEmptyModel = \<lparr>contents = [], keys = [], overrides = []\<rparr>"

definition isEmpty :: "ConfigurationModel \<Rightarrow> bool" where
  "isEmpty m \<longleftrightarrow> length (keys m) = 0 \<and> length (object_keys (contents m)) = 0 \<and> length (overrides m) = 0"

text \<open>
  \<^verbatim>\<open>getValue(section)\<close>: \<^verbatim>\<open>section ? getConfigurationValue(this.contents, section) : this.contents\<close>.
  An undefined and an empty section are both falsy.
\<close>

definition getValue :: "ConfigurationModel \<Rightarrow> string option \<Rightarrow> json option" where
  "getValue m section =
     (case section of
        None \<Rightarrow> Some (JObj (contents m))
      | Some s \<Rightarrow> if s = [] then Some (JObj (contents m)) else getConfigurationValue (contents m) s)"

lemma map_of_size_less:
  "map_of kvs k = Some v \<Longrightarrow> size v < size_list (size_prod (\<lambda>_. 0) size) kvs"
  by (induction kvs) (auto split: if_splits)

text \<open>
  \<^verbatim>\<open>mergeContents(source, target)\<close> writes \<open>target\<close> into \<open>source\<close>: for every key of
  \<open>target\<close>, two objects are merged recursively and anything else is overwritten with the
  target's value. The source mutates \<open>source\<close>; the model returns it.
\<close>

function mergeContents :: "obj \<Rightarrow> obj \<Rightarrow> obj" where
  "mergeContents source target =
     fold (\<lambda>key src.
        case map_of target key of
          None \<Rightarrow> src
        | Some tv \<Rightarrow>
            (case (map_of src key, tv) of
               (Some (JObj s), JObj t) \<Rightarrow> AList.update key (JObj (mergeContents s t)) src
             | _ \<Rightarrow> AList.update key tv src))
       (object_keys target) source"
  by pat_completeness auto
termination
  by (relation "measure (\<lambda>(s, t). size_list (size_prod (\<lambda>_. 0) size) t)")
     (auto dest!: map_of_size_less)

declare mergeContents.simps [simp del]

text \<open>
  One override section of the other model in \<^verbatim>\<open>merge\<close>: merged into the first section of
  the accumulator with the same identifier list, or appended.
\<close>

fun merge_override :: "IOverrides list \<Rightarrow> IOverrides \<Rightarrow> IOverrides list" where
  "merge_override [] otherOverride = [otherOverride]"
| "merge_override (ov # ovs) otherOverride =
     (if identifiers ov = identifiers otherOverride
      then ov\<lparr>ov_contents := mergeContents (ov_contents ov) (ov_contents otherOverride),
              ov_keys := distinct_first (ov_keys ov @ ov_keys otherOverride)\<rparr> # ovs
      else ov # merge_override ovs otherOverride)"

text \<open>The body of the loop over \<^verbatim>\<open>others\<close> in \<^verbatim>\<open>merge\<close>.\<close>

definition merge_other :: "ConfigurationModel \<Rightarrow> ConfigurationModel \<Rightarrow> ConfigurationModel" where
  "merge_other acc other =
     (if isEmpty other then acc
      else \<lparr>contents = mergeContents (contents acc) (contents other),
            keys = fold push_new (keys other) (keys acc),
            overrides = fold (\<lambda>otherOverride ovs. merge_override ovs otherOverride)
                             (overrides other) (overrides acc)\<rparr>)"

definition merge :: "ConfigurationModel \<Rightarrow> ConfigurationModel list \<Rightarrow> ConfigurationModel" where
  "merge this others = fold (\<lambda>other acc. merge_other acc other) others this"

text \<open>
  A scalar stands in the way of a path in a tree when the walk along the path meets a value
  that is not an object before the path ends.
\<close>

fun scalar_on_path :: "obj \<Rightarrow> string list \<Rightarrow> bool" where
  "scalar_on_path tree [] = False"
| "scalar_on_path tree [c] = False"
| "scalar_on_path tree (c # cs) =
     (case map_of tree c of
        None \<Rightarrow> False
      | Some (JObj sub) \<Rightarrow> scalar_on_path sub cs
      | Some _ \<Rightarrow> True)"

definition scalar_above :: "obj \<Rightarrow> string \<Rightarrow> bool" where
  "scalar_above tree key = scalar_on_path tree (split_dot key)"

text \<open>
  The spec's reading of precedence, in its own words: the value of a key "from the
  highest-priority layer that defines it", the layers being listed from the lowest priority
  to the highest.
\<close>

definition value_from_highest_layer :: "ConfigurationModel list \<Rightarrow> string \<Rightarrow> json option" where
  "value_from_highest_layer layers k =
     (case filter (\<lambda>M. getValue M (Some k) \<noteq> None) (rev layers) of
        [] \<Rightarrow> None
      | M # _ \<Rightarrow> getValue M (Some k))"

subsection \<open>Override sections\<close>

text \<open>
  \<^verbatim>\<open>OVERRIDE_PROPERTY_REGEX\<close> is \<^verbatim>\<open>^(\[([^\]]+)\])+$\<close>: one or more groups, each an opening
  bracket, one or more characters other than the closing bracket, and the closing bracket.
  The scan walks the key once; its state is the identifier being read (\<open>None\<close> between
  groups) and the identifiers read so far. It returns the identifiers of the groups when
  the key matches.
\<close>

fun scan_groups :: "string option \<Rightarrow> string list \<Rightarrow> string \<Rightarrow> string list option" where
  "scan_groups None found [] = (if found = [] then None else Some found)"
| "scan_groups (Some ident) found [] = None"
| "scan_groups None found (c # cs) =
     (if c = CHR ''['' then scan_groups (Some []) found cs else None)"
| "scan_groups (Some ident) found (c # cs) =
     (if c = CHR '']''
      then (if ident = [] then None else scan_groups None (found @ [ident]) cs)
      else scan_groups (Some (ident @ [c])) found cs)"

definition OVERRIDE_PROPERTY_REGEX_test :: "string \<Rightarrow> bool" where
  "OVERRIDE_PROPERTY_REGEX_test key \<longleftrightarrow> scan_groups None [] key \<noteq> None"

text \<open>
  \<^verbatim>\<open>overrideIdentifiersFromKey\<close>: the identifiers of the groups, trimmed, the empty ones left
  out, each once.
\<close>

definition overrideIdentifiersFromKey :: "string \<Rightarrow> string list" where
  "overrideIdentifiersFromKey key =
     (case scan_groups None [] key of
        None \<Rightarrow> []
      | Some groups \<Rightarrow> distinct_first (filter (\<lambda>identifier. identifier \<noteq> []) (map trim groups)))"

text \<open>
  \<^verbatim>\<open>getContentsForOverrideIdentifer\<close>: the sections that list the identifier among several
  are merged in order; the section of the identifier alone (the last such) is merged at the
  end, so that it wins. \<open>None\<close> is the source's \<^verbatim>\<open>null\<close>.
\<close>

definition mergeContents_into :: "obj option \<Rightarrow> obj \<Rightarrow> obj option" where
  "mergeContents_into acc contentsToMerge =
     (case acc of
        None \<Rightarrow> Some contentsToMerge
      | Some c \<Rightarrow> Some (mergeContents c contentsToMerge))"

definition getContentsForOverrideIdentifer :: "ConfigurationModel \<Rightarrow> string \<Rightarrow> obj option" where
  "getContentsForOverrideIdentifer m identifier =
     (case fold (\<lambda>ov (contentsForIdentifierOnly, acc).
                   if identifiers ov = [identifier] then (Some (ov_contents ov), acc)
                   else if identifier \<in> set (identifiers ov)
                        then (contentsForIdentifierOnly, mergeContents_into acc (ov_contents ov))
                        else (contentsForIdentifierOnly, acc))
                (overrides m) (None, None) of
        (None, acc) \<Rightarrow> acc
      | (Some only, acc) \<Rightarrow> mergeContents_into acc only)"

text \<open>
  \<^verbatim>\<open>mergeContents(source, target)\<close> when \<open>source\<close> is an array, which
  \<^verbatim>\<open>createOverrideConfigurationModel\<close> reaches because it tests \<^verbatim>\<open>typeof\<close> and an array is
  of type object. The keys of the target come in the order of \<^verbatim>\<open>Object.keys\<close>. Two objects
  are merged in place, under an index or a name; anything else is assigned, with the
  effects of an assignment to an array. The names that an array inherits hold functions,
  which are no objects for \<^verbatim>\<open>types.isObject\<close>, so \<^verbatim>\<open>key in source\<close> decides nothing more
  than the own property does.
\<close>

definition array_put :: "json option list \<Rightarrow> obj \<Rightarrow> string \<Rightarrow> json \<Rightarrow> json option list \<times> obj" where
  "array_put es ps key v =
     (case array_index key of
        Some i \<Rightarrow> (es[i := Some v], ps)
      | None \<Rightarrow> (es, AList.update key v ps))"

definition mergeContents_array ::
  "json option list \<Rightarrow> obj \<Rightarrow> obj \<Rightarrow> error + json option list \<times> obj" where
  "mergeContents_array es ps target =
     fold (\<lambda>key acc.
        case acc of
          Inl err \<Rightarrow> Inl err
        | Inr (es', ps') \<Rightarrow>
            (case map_of target key of
               None \<Rightarrow> acc
             | Some tv \<Rightarrow>
                 (case (array_get es' ps' key, tv) of
                    (Some (JObj s), JObj t) \<Rightarrow> Inr (array_put es' ps' key (JObj (mergeContents s t)))
                  | _ \<Rightarrow> array_set es' ps' key tv)))
       (own_keys target) (Inr (es, ps))"

text \<open>
  In \<^verbatim>\<open>createOverrideConfigurationModel\<close>, when the base value and the override value of a
  key are both of type object, the base is cloned and \<^verbatim>\<open>mergeContents\<close> writes the override
  into the clone. The override value is an object or an array, and is written by its own
  properties. When the base is an object these are merged into it. When the base is an
  array they are merged into the array. When the base is \<^verbatim>\<open>null\<close>, \<^verbatim>\<open>key in source\<close> raises
  at the first key, and nothing happens when there is no key.
\<close>

fun merge_into_clone :: "json \<Rightarrow> json \<Rightarrow> error + json" where
  "merge_into_clone (JObj s) ov = Inr (JObj (mergeContents s (own_properties ov)))"
| "merge_into_clone (JArr es ps) ov =
     (case mergeContents_array es ps (own_properties ov) of
        Inl err \<Rightarrow> Inl err
      | Inr (es', ps') \<Rightarrow> Inr (JArr es' ps'))"
| "merge_into_clone base ov =
     (if object_keys (own_properties ov) = [] then Inr base else Inl TypeError)"

text \<open>
  The value that \<^verbatim>\<open>createOverrideConfigurationModel\<close> stores for one key, from the base
  value and the override value (\<open>None\<close> is \<^verbatim>\<open>undefined\<close>). The test on the override value is
  \<^verbatim>\<open>if (overrideContentsForKey)\<close>, its truthiness.
\<close>

definition override_value :: "json option \<Rightarrow> json option \<Rightarrow> error + json option" where
  "override_value contentsForKey overrideContentsForKey =
     (case overrideContentsForKey of
        None \<Rightarrow> Inr contentsForKey
      | Some ov \<Rightarrow>
          if truthy ov then
            (case contentsForKey of
               None \<Rightarrow> Inr (Some ov)
             | Some base \<Rightarrow>
                 if typeof_object base \<and> typeof_object ov
                 then (case merge_into_clone base ov of Inl e \<Rightarrow> Inl e | Inr v \<Rightarrow> Inr (Some v))
                 else Inr (Some ov))
          else Inr contentsForKey)"

text \<open>The loop over the keys of the base and of the override contents.\<close>

fun override_entries :: "obj \<Rightarrow> obj \<Rightarrow> string list \<Rightarrow> error + obj" where
  "override_entries base overrideContents [] = Inr []"
| "override_entries base overrideContents (key # ks) =
     (case override_value (map_of base key) (map_of overrideContents key) of
        Inl e \<Rightarrow> Inl e
      | Inr v \<Rightarrow>
          (case override_entries base overrideContents ks of
             Inl e \<Rightarrow> Inl e
           | Inr rest \<Rightarrow> Inr (case v of None \<Rightarrow> rest | Some x \<Rightarrow> (key, x) # rest)))"

definition createOverrideConfigurationModel :: "ConfigurationModel \<Rightarrow> string \<Rightarrow> error + ConfigurationModel" where
  "createOverrideConfigurationModel m identifier =
     (case getContentsForOverrideIdentifer m identifier of
        None \<Rightarrow> Inr m
      | Some overrideContents \<Rightarrow>
          if object_keys overrideContents = [] then Inr m
          else (case override_entries (contents m) overrideContents
                       (distinct_first (object_keys (contents m) @ object_keys overrideContents)) of
                  Inl e \<Rightarrow> Inl e
                | Inr c \<Rightarrow> Inr \<lparr>contents = c, keys = keys m, overrides = overrides m\<rparr>))"

text \<open>
  \<^verbatim>\<open>override(identifier)\<close> memoises \<^verbatim>\<open>createOverrideConfigurationModel\<close> per identifier on
  the model. It is called on consolidated models only, which are never mutated after they
  are built, so the memo always holds the value of the function.
\<close>

definition override :: "ConfigurationModel \<Rightarrow> string \<Rightarrow> error + ConfigurationModel" where
  "override m identifier = createOverrideConfigurationModel m identifier"

subsection \<open>Mutation of the memory model\<close>

text \<open>
  \<^verbatim>\<open>removeValue\<close>. \<^verbatim>\<open>splice(findIndex(...), 1)\<close> removes the first section with the
  identifiers of the key, and, \<^verbatim>\<open>findIndex\<close> returning -1 when there is none, the last
  section of the list.
\<close>

fun remove_first_where :: "('a \<Rightarrow> bool) \<Rightarrow> 'a list \<Rightarrow> 'a list option" where
  "remove_first_where P [] = None"
| "remove_first_where P (x # xs) =
     (if P x then Some xs else map_option (Cons x) (remove_first_where P xs))"

definition splice_findIndex :: "('a \<Rightarrow> bool) \<Rightarrow> 'a list \<Rightarrow> 'a list" where
  "splice_findIndex P xs = (case remove_first_where P xs of None \<Rightarrow> butlast xs | Some ys \<Rightarrow> ys)"

definition removeValue :: "ConfigurationModel \<Rightarrow> string \<Rightarrow> ConfigurationModel" where
  "removeValue m key =
     (if key \<notin> set (keys m) then m
      else \<lparr>contents = removeFromValueTree (contents m) key,
            keys = remove1 key (keys m),
            overrides =
              (if OVERRIDE_PROPERTY_REGEX_test key
               then splice_findIndex (\<lambda>sec. identifiers sec = overrideIdentifiersFromKey key) (overrides m)
               else overrides m)\<rparr>)"

text \<open>
  The private \<^verbatim>\<open>updateValue(key, value, add)\<close> of the model. For an override-section key
  the section is rebuilt from \<^verbatim>\<open>this.contents[key]\<close>: \<^verbatim>\<open>Object.keys\<close> raises on \<^verbatim>\<open>null\<close> and
  \<^verbatim>\<open>undefined\<close> and gives the own properties of any other value.
\<close>

fun section_of_value :: "json option \<Rightarrow> error + (string list \<times> obj)" where
  "section_of_value None = Inl TypeError"
| "section_of_value (Some JNull) = Inl TypeError"
| "section_of_value (Some v) =
     Inr (object_keys (own_properties v), toValuesTree (own_properties v))"

fun replace_or_push :: "IOverrides \<Rightarrow> IOverrides list \<Rightarrow> IOverrides list" where
  "replace_or_push ov [] = [ov]"
| "replace_or_push ov (sec # secs) =
     (if identifiers sec = identifiers ov then ov # secs else sec # replace_or_push ov secs)"

definition Model_updateValue :: "ConfigurationModel \<Rightarrow> string \<Rightarrow> json \<Rightarrow> bool \<Rightarrow> error + ConfigurationModel" where
  "Model_updateValue m key v add =
     (let contents' = addToValueTree (contents m) key v;
          keys' = (if add \<or> key \<notin> set (keys m) then keys m @ [key] else keys m)
      in if OVERRIDE_PROPERTY_REGEX_test key
         then (case section_of_value (map_of contents' key) of
                 Inl e \<Rightarrow> Inl e
               | Inr (ks, c) \<Rightarrow>
                   Inr \<lparr>contents = contents', keys = keys',
                        overrides = replace_or_push
                          \<lparr>identifiers = overrideIdentifiersFromKey key, ov_keys = ks, ov_contents = c\<rparr>
                          (overrides m)\<rparr>)
         else Inr \<lparr>contents = contents', keys = keys', overrides = overrides m\<rparr>)"

definition setValue :: "ConfigurationModel \<Rightarrow> string \<Rightarrow> json \<Rightarrow> error + ConfigurationModel" where
  "setValue m key v = Model_updateValue m key v False"

section \<open>The configuration\<close>

text \<open>
  A resource is a URI; a \<^verbatim>\<open>ResourceMap\<close> is an association list keyed by it. The workspace
  is an external collaborator: all the configuration asks of it is \<^verbatim>\<open>getFolder(resource)\<close>,
  the root folder that owns a resource, if any.
\<close>

type_synonym URI = string

type_synonym Workspace = "URI \<Rightarrow> URI option"

record IConfigurationOverrides =
  overrideIdentifier :: "string option"
  resource :: "URI option"

text \<open>
  \<^verbatim>\<open>Configuration\<close>: the layers, and after them the three memo fields
  \<^verbatim>\<open>_workspaceConsolidatedConfiguration\<close>, \<^verbatim>\<open>_foldersConsolidatedConfigurations\<close> and
  \<^verbatim>\<open>_userConfiguration\<close>. Reads fill the memos, so every read returns the configuration too.
\<close>

record Configuration =
  defaultConfiguration :: ConfigurationModel
  policyConfiguration :: ConfigurationModel
  applicationConfiguration :: ConfigurationModel
  localUserConfiguration :: ConfigurationModel
  remoteUserConfiguration :: ConfigurationModel
  workspaceConfiguration :: ConfigurationModel
  folderConfigurations :: "(URI \<times> ConfigurationModel) list"
  memoryConfiguration :: ConfigurationModel
  memoryConfigurationByResource :: "(URI \<times> ConfigurationModel) list"
  workspaceConsolidatedConfiguration :: "ConfigurationModel option"
  foldersConsolidatedConfigurations :: "(URI \<times> ConfigurationModel) list"
  userConfiguration_memo :: "ConfigurationModel option"

definition userConfiguration :: "Configuration \<Rightarrow> ConfigurationModel \<times> Configuration" where
  "userConfiguration c =
     (case userConfiguration_memo c of
        Some u \<Rightarrow> (u, c)
      | None \<Rightarrow>
          (let u = (if isEmpty (remoteUserConfiguration c) then localUserConfiguration c
                    else merge (localUserConfiguration c) [remoteUserConfiguration c])
           in (u, c\<lparr>userConfiguration_memo := Some u\<rparr>)))"

definition getWorkspaceConsolidatedConfiguration :: "Configuration \<Rightarrow> ConfigurationModel \<times> Configuration" where
  "getWorkspaceConsolidatedConfiguration c =
     (case workspaceConsolidatedConfiguration c of
        Some m \<Rightarrow> (m, c)
      | None \<Rightarrow>
          (let (u, c1) = userConfiguration c;
               m = merge (defaultConfiguration c1)
                     [applicationConfiguration c1, u, workspaceConfiguration c1, memoryConfiguration c1]
           in (m, c1\<lparr>workspaceConsolidatedConfiguration := Some m\<rparr>)))"

definition getFolderConsolidatedConfiguration :: "Configuration \<Rightarrow> URI \<Rightarrow> ConfigurationModel \<times> Configuration" where
  "getFolderConsolidatedConfiguration c folder =
     (case map_of (foldersConsolidatedConfigurations c) folder of
        Some m \<Rightarrow> (m, c)
      | None \<Rightarrow>
          (let (w, c1) = getWorkspaceConsolidatedConfiguration c
           in case map_of (folderConfigurations c1) folder of
                Some folderConfiguration \<Rightarrow>
                  (let m = merge w [folderConfiguration]
                   in (m, c1\<lparr>foldersConsolidatedConfigurations :=
                               AList.update folder m (foldersConsolidatedConfigurations c1)\<rparr>))
              | None \<Rightarrow> (w, c1)))"

definition getConsolidatedConfigurationModelForResource ::
  "Configuration \<Rightarrow> IConfigurationOverrides \<Rightarrow> Workspace option \<Rightarrow> ConfigurationModel \<times> Configuration" where
  "getConsolidatedConfigurationModelForResource c ovr workspace =
     (let (consolidated, c1) = getWorkspaceConsolidatedConfiguration c
      in case (workspace, resource ovr) of
           (Some ws, Some r) \<Rightarrow>
             (let (consolidated2, c2) =
                    (case ws r of
                       Some root \<Rightarrow> getFolderConsolidatedConfiguration c1 root
                     | None \<Rightarrow> (consolidated, c1))
              in case map_of (memoryConfigurationByResource c2) r of
                   Some memoryConfigurationForResource \<Rightarrow>
                     (merge consolidated2 [memoryConfigurationForResource], c2)
                 | None \<Rightarrow> (consolidated2, c2))
         | _ \<Rightarrow> (consolidated, c1))"

definition getConsolidatedConfigurationModel ::
  "Configuration \<Rightarrow> string option \<Rightarrow> IConfigurationOverrides \<Rightarrow> Workspace option
     \<Rightarrow> error + (ConfigurationModel \<times> Configuration)" where
  "getConsolidatedConfigurationModel c section ovr workspace =
     (let (configurationModel, c1) = getConsolidatedConfigurationModelForResource c ovr workspace
      in case (case overrideIdentifier ovr of
                 None \<Rightarrow> Inr configurationModel
               | Some identifier \<Rightarrow>
                   if identifier = [] then Inr configurationModel
                   else override configurationModel identifier) of
           Inl e \<Rightarrow> Inl e
         | Inr m \<Rightarrow>
             Inr (if \<not> isEmpty (policyConfiguration c1)
                      \<and> getValue (policyConfiguration c1) section \<noteq> None
                  then merge m [policyConfiguration c1] else m,
                  c1))"

definition Configuration_getValue ::
  "Configuration \<Rightarrow> string option \<Rightarrow> IConfigurationOverrides \<Rightarrow> Workspace option
     \<Rightarrow> error + (json option \<times> Configuration)" where
  "Configuration_getValue c section ovr workspace =
     (case getConsolidatedConfigurationModel c section ovr workspace of
        Inl e \<Rightarrow> Inl e
      | Inr (consolidateConfigurationModel, c1) \<Rightarrow>
          Inr (getValue consolidateConfigurationModel section, c1))"

text \<open>
  \<^verbatim>\<open>Configuration.updateValue(key, value, overrides)\<close>; of \<^verbatim>\<open>overrides\<close> only the resource
  is read. A value of \<open>None\<close> is \<^verbatim>\<open>undefined\<close>. When the model raises, so does the update.
\<close>

definition Configuration_updateValue ::
  "Configuration \<Rightarrow> string \<Rightarrow> json option \<Rightarrow> URI option \<Rightarrow> error + Configuration" where
  "Configuration_updateValue c key v res =
     (let memoryConfiguration0 =
            (case res of
               Some r \<Rightarrow> (case map_of (memoryConfigurationByResource c) r of
                            Some m \<Rightarrow> m
                          | None \<Rightarrow> createEmptyModel)
             | None \<Rightarrow> memoryConfiguration c)
      in case (case v of
                 None \<Rightarrow> Inr (removeValue memoryConfiguration0 key)
               | Some x \<Rightarrow> setValue memoryConfiguration0 key x) of
           Inl e \<Rightarrow> Inl e
         | Inr memoryConfiguration1 \<Rightarrow>
             Inr (case res of
                    Some r \<Rightarrow>
                      c\<lparr>memoryConfigurationByResource :=
                          AList.update r memoryConfiguration1 (memoryConfigurationByResource c)\<rparr>
                  | None \<Rightarrow>
                      c\<lparr>memoryConfiguration := memoryConfiguration1,
                        workspaceConsolidatedConfiguration := None\<rparr>))"

text \<open>
  \<^verbatim>\<open>IConfigurationData\<close>, the snapshot of \<^verbatim>\<open>toData\<close>; an \<^verbatim>\<open>IConfigurationModel\<close> has the three
  fields of the model. \<^verbatim>\<open>toData\<close> reads the \<^verbatim>\<open>userConfiguration\<close> getter and so fills its memo.
\<close>

record IConfigurationData =
  data_defaults :: ConfigurationModel
  data_policy :: ConfigurationModel
  data_application :: ConfigurationModel
  data_user :: ConfigurationModel
  data_workspace :: ConfigurationModel
  data_folders :: "(URI \<times> ConfigurationModel) list"

definition toData :: "Configuration \<Rightarrow> IConfigurationData \<times> Configuration" where
  "toData c =
     (let (u, c1) = userConfiguration c
      in (\<lparr>data_defaults = defaultConfiguration c1,
           data_policy = policyConfiguration c1,
           data_application = applicationConfiguration c1,
           data_user = u,
           data_workspace = workspaceConfiguration c1,
           data_folders = AList.clearjunk (folderConfigurations c1)\<rparr>, c1))"

definition parseConfigurationModel :: "ConfigurationModel \<Rightarrow> ConfigurationModel" where
  "parseConfigurationModel model =
     \<lparr>contents = contents model, keys = keys model, overrides = overrides model\<rparr>"

definition parse :: "IConfigurationData \<Rightarrow> Configuration" where
  "parse d =
     \<lparr>defaultConfiguration = parseConfigurationModel (data_defaults d),
      policyConfiguration = parseConfigurationModel (data_policy d),
      applicationConfiguration = parseConfigurationModel (data_application d),
      localUserConfiguration = parseConfigurationModel (data_user d),
      remoteUserConfiguration = createEmptyModel,
      workspaceConfiguration = parseConfigurationModel (data_workspace d),
      folderConfigurations =
        fold (\<lambda>(folder, model) result. AList.update folder (parseConfigurationModel model) result)
             (data_folders d) [],
      memoryConfiguration = createEmptyModel,
      memoryConfigurationByResource = [],
      workspaceConsolidatedConfiguration = None,
      foldersConsolidatedConfigurations = [],
      userConfiguration_memo = None\<rparr>"

text \<open>Three small layers used to run the statements below on concrete input.\<close>

definition layer_ab1 :: ConfigurationModel where
  "layer_ab1 = \<lparr>contents = [(''a'', JObj [(''b'', JNum 1)])], keys = [''a.b''], overrides = []\<rparr>"

definition layer_a5 :: ConfigurationModel where
  "layer_a5 = \<lparr>contents = [(''a'', JNum 5)], keys = [''a''], overrides = []\<rparr>"

definition layer_ab2_ac3 :: ConfigurationModel where
  "layer_ab2_ac3 = \<lparr>contents = [(''a'', JObj [(''b'', JNum 2), (''c'', JNum 3)])],
                     keys = [''a.b'', ''a.c''], overrides = []\<rparr>"

definition layer_ac4 :: ConfigurationModel where
  "layer_ac4 = \<lparr>contents = [(''a'', JObj [(''c'', JNum 4)])], keys = [''a.c''], overrides = []\<rparr>"

lemmas example_layers = layer_ab1_def layer_a5_def layer_ab2_ac3_def layer_ac4_def

lemmas model_eval = merge_def merge_other_def isEmpty_def object_keys_def getValue_def
  getConfigurationValue_def mergeContents.simps push_new_def

text \<open>The value of a read, without the configuration returned with it.\<close>

definition result_value :: "error + ('a \<times> Configuration) \<Rightarrow> error + 'a" where
  "result_value r = map_sum id fst r"

text \<open>
  The two steps of \<^verbatim>\<open>getConsolidatedConfigurationModel\<close> after the consolidation, named so
  that statements can speak of them: the projection on the override identifier, when one
  is given and not empty, and the policy merged on top, when the policy defines the section.
\<close>

definition project_override :: "ConfigurationModel \<Rightarrow> string option \<Rightarrow> error + ConfigurationModel" where
  "project_override m oi =
     (case oi of None \<Rightarrow> Inr m | Some identifier \<Rightarrow> if identifier = [] then Inr m else override m identifier)"

definition apply_policy :: "ConfigurationModel \<Rightarrow> string option \<Rightarrow> ConfigurationModel \<Rightarrow> ConfigurationModel" where
  "apply_policy p section m = (if \<not> isEmpty p \<and> getValue p section \<noteq> None then merge m [p] else m)"

text \<open>Two configurations hold the same layers; their memo fields may differ.\<close>

definition same_layers :: "Configuration \<Rightarrow> Configuration \<Rightarrow> bool" where
  "same_layers c c' \<longleftrightarrow>
     defaultConfiguration c' = defaultConfiguration c
   \<and> policyConfiguration c' = policyConfiguration c
   \<and> applicationConfiguration c' = applicationConfiguration c
   \<and> localUserConfiguration c' = localUserConfiguration c
   \<and> remoteUserConfiguration c' = remoteUserConfiguration c
   \<and> workspaceConfiguration c' = workspaceConfiguration c
   \<and> folderConfigurations c' = folderConfigurations c
   \<and> memoryConfiguration c' = memoryConfiguration c
   \<and> memoryConfigurationByResource c' = memoryConfigurationByResource c"

text \<open>Configurations and layers used to run the statements on concrete input.\<close>

definition cfg_empty :: Configuration where
  "cfg_empty =
     \<lparr>defaultConfiguration = createEmptyModel,
      policyConfiguration = createEmptyModel,
      applicationConfiguration = createEmptyModel,
      localUserConfiguration = createEmptyModel,
      remoteUserConfiguration = createEmptyModel,
      workspaceConfiguration = createEmptyModel,
      folderConfigurations = [],
      memoryConfiguration = createEmptyModel,
      memoryConfigurationByResource = [],
      workspaceConsolidatedConfiguration = None,
      foldersConsolidatedConfigurations = [],
      userConfiguration_memo = None\<rparr>"

definition layer_ax1 :: ConfigurationModel where
  "layer_ax1 = \<lparr>contents = [(''a'', JObj [(''x'', JNum 1)])], keys = [''a.x''], overrides = []\<rparr>"

definition layer_ay2 :: ConfigurationModel where
  "layer_ay2 = \<lparr>contents = [(''a'', JObj [(''y'', JNum 2)])], keys = [''a.y''], overrides = []\<rparr>"

definition no_overrides :: IConfigurationOverrides where
  "no_overrides = \<lparr>overrideIdentifier = None, resource = None\<rparr>"

lemmas config_eval = Configuration_getValue_def getConsolidatedConfigurationModel_def
  getConsolidatedConfigurationModelForResource_def getWorkspaceConsolidatedConfiguration_def
  getFolderConsolidatedConfiguration_def userConfiguration_def createEmptyModel_def
  result_value_def Let_def

definition workspace_f :: Workspace where
  "workspace_f r = Some ''/f''"

definition in_folder_f :: IConfigurationOverrides where
  "in_folder_f = \<lparr>overrideIdentifier = None, resource = Some ''/f/x''\<rparr>"

definition cfg_folder :: Configuration where
  "cfg_folder = cfg_empty\<lparr>defaultConfiguration := layer_ab1, folderConfigurations := [(''/f'', layer_ac4)]\<rparr>"

definition layer_ab1_ac4 :: ConfigurationModel where
  "layer_ab1_ac4 = \<lparr>contents = [(''a'', JObj [(''b'', JNum 1), (''c'', JNum 4)])],
                     keys = [''a.b'', ''a.c''], overrides = []\<rparr>"

definition cfg_folder_read :: Configuration where
  "cfg_folder_read = cfg_folder\<lparr>workspaceConsolidatedConfiguration := Some layer_ab1,
       foldersConsolidatedConfigurations := [(''/f'', layer_ab1_ac4)],
       userConfiguration_memo := Some createEmptyModel\<rparr>"

definition layer_ab7 :: ConfigurationModel where
  "layer_ab7 = \<lparr>contents = [(''a'', JObj [(''b'', JNum 7)])], keys = [''a.b''], overrides = []\<rparr>"

lemmas example_configs = cfg_empty_def cfg_folder_def cfg_folder_read_def workspace_f_def
  in_folder_f_def no_overrides_def layer_ab1_ac4_def layer_ab7_def layer_ax1_def layer_ay2_def

lemmas update_eval = Configuration_updateValue_def setValue_def Model_updateValue_def
  removeValue_def OVERRIDE_PROPERTY_REGEX_test_def addToValueTree_def removeFromValueTree_def

section \<open>The change event\<close>

text \<open>
  \<^verbatim>\<open>IConfigurationChange\<close>: the changed keys, and per override identifier the keys changed
  under it. \<^verbatim>\<open>ConfigurationChangeEvent\<close> keeps the change, the previous workspace and data if
  any, and the current configuration and workspace.
\<close>

record IConfigurationChange =
  change_keys :: "string list"
  change_overrides :: "(string \<times> string list) list"

record ConfigurationChangeEvent =
  change :: IConfigurationChange
  previous :: "(Workspace option \<times> IConfigurationData) option"
  currentConfiguraiton :: Configuration
  currentWorkspace :: "Workspace option"

text \<open>The constructor: \<^verbatim>\<open>affectedKeys\<close> is a set in insertion order.\<close>

definition affectedKeys :: "IConfigurationChange \<Rightarrow> string list" where
  "affectedKeys ch =
     fold (\<lambda>(identifier, ks) acc. fold push_new ks acc) (change_overrides ch)
          (fold push_new (change_keys ch) [])"

definition marker :: char where
  "marker = CHR 0x0A"

definition affectsConfigStr :: "IConfigurationChange \<Rightarrow> string" where
  "affectsConfigStr ch = fold (\<lambda>key str. str @ key @ [marker]) (affectedKeys ch) [marker]"

text \<open>\<^verbatim>\<open>String.prototype.indexOf\<close>: the first position at which the needle occurs.\<close>

fun indexOf :: "string \<Rightarrow> string \<Rightarrow> nat option" where
  "indexOf [] needle = (if needle = [] then Some 0 else None)"
| "indexOf (c # cs) needle =
     (if take (length needle) (c # cs) = needle then Some 0
      else map_option Suc (indexOf cs needle))"

text \<open>
  Modelled from the spec: \<^verbatim>\<open>objects.equals\<close> of \<^verbatim>\<open>objects.ts\<close>, not among the sources. The
  spec: with an override identifier the event "compares before/after resolved values for
  that override and only reports true if they differ".
\<close>

definition objects_equals :: "json option \<Rightarrow> json option \<Rightarrow> bool" where
  "objects_equals value1 value2 \<longleftrightarrow> value1 = value2"

text \<open>
  \<^verbatim>\<open>affectsConfiguration(section, overrides?)\<close>. The reads of the two configurations fill
  their memos; the event returns the answer only.
\<close>

definition affectsConfiguration ::
  "ConfigurationChangeEvent \<Rightarrow> string \<Rightarrow> IConfigurationOverrides option \<Rightarrow> error + bool" where
  "affectsConfiguration ev sect ovr =
     (let needle = marker # sect
      in case indexOf (affectsConfigStr (change ev)) needle of
           None \<Rightarrow> Inr False
         | Some idx \<Rightarrow>
             (let pos = idx + length needle
              in if pos \<ge> length (affectsConfigStr (change ev)) then Inr False
                 else (let code = affectsConfigStr (change ev) ! pos
                       in if code \<noteq> marker \<and> code \<noteq> CHR ''.'' then Inr False
                          else (case ovr of
                                  None \<Rightarrow> Inr True
                                | Some overrides' \<Rightarrow>
                                    (case (case previous ev of
                                             None \<Rightarrow> Inr None
                                           | Some (workspace, d) \<Rightarrow>
                                               result_value (Configuration_getValue (parse d)
                                                  (Some sect) overrides' workspace)) of
                                       Inl e \<Rightarrow> Inl e
                                     | Inr value1 \<Rightarrow>
                                         (case result_value (Configuration_getValue
                                                  (currentConfiguraiton ev) (Some sect) overrides'
                                                  (currentWorkspace ev)) of
                                            Inl e \<Rightarrow> Inl e
                                          | Inr value2 \<Rightarrow>
                                              Inr (\<not> objects_equals value1 value2)))))))"

text \<open>
  The claim's reading of the answer: some affected key equals the section, or begins with
  the section followed by a dot.
\<close>

definition affects_by_prefix :: "IConfigurationChange \<Rightarrow> string \<Rightarrow> bool" where
  "affects_by_prefix ch sect \<longleftrightarrow>
     list_ex (\<lambda>key. key = sect \<or> take (length sect + 1) key = sect @ ''.'') (affectedKeys ch)"

text \<open>Inputs for the statements on override projection and on change events.\<close>

definition model_enabled :: ConfigurationModel where
  "model_enabled =
     \<lparr>contents = [(''enabled'', JBool True)], keys = [''enabled''],
      overrides = [\<lparr>identifiers = [''typescript''], ov_keys = [''enabled''],
                    ov_contents = [(''enabled'', JBool False)]\<rparr>]\<rparr>"

definition model_fontSize :: ConfigurationModel where
  "model_fontSize =
     \<lparr>contents = [(''fontSize'', JNum 12)], keys = [''fontSize''],
      overrides = [\<lparr>identifiers = [''typescript''], ov_keys = [''fontSize''],
                    ov_contents = [(''fontSize'', JNum 14)]\<rparr>]\<rparr>"

definition model_rulers :: ConfigurationModel where
  "model_rulers =
     \<lparr>contents = [(''rulers'', JArr [Some (JNum 80), Some (JNum 100), Some (JNum 120)] []),
                  (''tabs'', JNull)],
      keys = [''rulers'', ''tabs''],
      overrides = [\<lparr>identifiers = [''typescript''], ov_keys = [''rulers''],
                    ov_contents = [(''rulers'', JArr [Some (JNum 90)] [])]\<rparr>,
                   \<lparr>identifiers = [''python''], ov_keys = [''rulers''],
                    ov_contents = [(''rulers'', JObj [(''length'', JNum 1), (''wide'', JBool True)])]\<rparr>,
                   \<lparr>identifiers = [''go''], ov_keys = [''tabs''],
                    ov_contents = [(''tabs'', JObj [(''size'', JNum 8)])]\<rparr>,
                   \<lparr>identifiers = [''rust''], ov_keys = [''rulers''],
                    ov_contents = [(''rulers'', JObj [(''length'', JNum (- 1))])]\<rparr>]\<rparr>"

definition event_of :: "string list \<Rightarrow> ConfigurationChangeEvent" where
  "event_of ks =
     \<lparr>change = \<lparr>change_keys = ks, change_overrides = []\<rparr>, previous = None,
      currentConfiguraiton = cfg_empty, currentWorkspace = None\<rparr>"

lemmas override_eval = override_def createOverrideConfigurationModel_def
  getContentsForOverrideIdentifer_def mergeContents_into_def override_value_def distinct_first_def

lemmas array_eval = array_entries_def mergeContents_array_def own_keys_def array_index_def
  digit_of_def array_get_def array_set_def array_put_def array_length_of_def decimal.simps
  List.map_filter_def

lemmas event_eval = affectsConfiguration_def affectsConfigStr_def affectedKeys_def marker_def
  affects_by_prefix_def event_of_def

text \<open>
  What the memo fields should hold, computed from the layers: the user model, the
  consolidated workspace model, and per folder the consolidated model of the folder. The
  memos are valid when each is empty or holds that value.
\<close>

definition user_of_layers :: "Configuration \<Rightarrow> ConfigurationModel" where
  "user_of_layers c =
     (if isEmpty (remoteUserConfiguration c) then localUserConfiguration c
      else merge (localUserConfiguration c) [remoteUserConfiguration c])"

definition consolidated_of_layers :: "Configuration \<Rightarrow> ConfigurationModel" where
  "consolidated_of_layers c =
     merge (defaultConfiguration c)
       [applicationConfiguration c, user_of_layers c, workspaceConfiguration c, memoryConfiguration c]"

definition memos_valid :: "Configuration \<Rightarrow> bool" where
  "memos_valid c \<longleftrightarrow>
     (case userConfiguration_memo c of None \<Rightarrow> True | Some u \<Rightarrow> u = user_of_layers c)
   \<and> (case workspaceConsolidatedConfiguration c of
         None \<Rightarrow> True | Some m \<Rightarrow> m = consolidated_of_layers c)
   \<and> list_all (\<lambda>(folder, m).
         case map_of (folderConfigurations c) folder of
           None \<Rightarrow> False
         | Some folderConfiguration \<Rightarrow> m = merge (consolidated_of_layers c) [folderConfiguration])
       (foldersConsolidatedConfigurations c)"

text \<open>The consolidated model for a resource, computed from the layers without any memo.\<close>

definition resolve_model :: "Configuration \<Rightarrow> IConfigurationOverrides \<Rightarrow> Workspace option \<Rightarrow> ConfigurationModel" where
  "resolve_model c ovr workspace =
     (case (workspace, resource ovr) of
        (Some ws, Some r) \<Rightarrow>
          (let m = (case ws r of
                      None \<Rightarrow> consolidated_of_layers c
                    | Some root \<Rightarrow>
                        (case map_of (folderConfigurations c) root of
                           None \<Rightarrow> consolidated_of_layers c
                         | Some fc \<Rightarrow> merge (consolidated_of_layers c) [fc]))
           in case map_of (memoryConfigurationByResource c) r of
                None \<Rightarrow> m
              | Some mr \<Rightarrow> merge m [mr])
      | _ \<Rightarrow> consolidated_of_layers c)"

definition cfg_folder_touched :: Configuration where
  "cfg_folder_touched = cfg_folder_read\<lparr>memoryConfigurationByResource := [(''/f/x'', createEmptyModel)]\<rparr>"

definition cfg_memory :: Configuration where
  "cfg_memory = cfg_empty\<lparr>memoryConfiguration := layer_a5\<rparr>"

text \<open>
  The memory model that \<^verbatim>\<open>updateValue\<close> targets (the global one, or the one of the resource,
  created empty on the first write), the configuration with a new model stored there, and
  the configuration with that model taken away.
\<close>

definition memory_target :: "Configuration \<Rightarrow> URI option \<Rightarrow> ConfigurationModel" where
  "memory_target c res =
     (case res of
        None \<Rightarrow> memoryConfiguration c
      | Some r \<Rightarrow> (case map_of (memoryConfigurationByResource c) r of
                     Some m \<Rightarrow> m
                   | None \<Rightarrow> createEmptyModel))"

definition store_memory_target :: "Configuration \<Rightarrow> URI option \<Rightarrow> ConfigurationModel \<Rightarrow> Configuration" where
  "store_memory_target c res m =
     (case res of
        None \<Rightarrow> c\<lparr>memoryConfiguration := m, workspaceConsolidatedConfiguration := None\<rparr>
      | Some r \<Rightarrow> c\<lparr>memoryConfigurationByResource :=
                       AList.update r m (memoryConfigurationByResource c)\<rparr>)"

definition without_memory_target :: "Configuration \<Rightarrow> URI option \<Rightarrow> Configuration" where
  "without_memory_target c res =
     (case res of
        None \<Rightarrow> c\<lparr>memoryConfiguration := createEmptyModel\<rparr>
      | Some r \<Rightarrow> c\<lparr>memoryConfigurationByResource :=
                       AList.delete r (memoryConfigurationByResource c)\<rparr>)"

text \<open>The model onto which the per-resource memory model is merged on a read.\<close>

definition folder_base :: "Configuration \<Rightarrow> Workspace \<Rightarrow> URI \<Rightarrow> ConfigurationModel" where
  "folder_base c ws r =
     (case ws r of
        None \<Rightarrow> fst (getWorkspaceConsolidatedConfiguration c)
      | Some root \<Rightarrow>
          fst (getFolderConsolidatedConfiguration (snd (getWorkspaceConsolidatedConfiguration c)) root))"

definition cfg_memory_ab :: Configuration where
  "cfg_memory_ab = cfg_empty\<lparr>memoryConfiguration := layer_ab1\<rparr>"

definition cfg_memory_ab7 :: Configuration where
  "cfg_memory_ab7 = cfg_folder\<lparr>memoryConfiguration := layer_ab7,
       memoryConfigurationByResource := [(''/f/x'', layer_ab7)]\<rparr>"

lemmas target_eval = memory_target_def store_memory_target_def without_memory_target_def

section \<open>The property registry\<close>

text \<open>
  \<^verbatim>\<open>ConfigurationScope\<close>, and an extension (\<^verbatim>\<open>IExtensionInfo\<close>, an opaque object) by its name.
  The provenance of a default value is one extension, or a map from dotted sub-paths to
  extensions (\<^verbatim>\<open>ConfigurationDefaultValueSource\<close>).
\<close>

datatype ConfigurationScope =
  APPLICATION | MACHINE | WINDOW | RESOURCE | LANGUAGE_OVERRIDABLE | MACHINE_OVERRIDABLE

type_synonym IExtensionInfo = string

datatype ConfigurationDefaultValueSource =
    ExtensionSource IExtensionInfo
  | SourceMap "(string \<times> IExtensionInfo) list"

text \<open>The \<^verbatim>\<open>type\<close> of a JSON schema: one type name or an array of them.\<close>

datatype schema_type = TypeName string | TypeNames "string list"

text \<open>
  \<^verbatim>\<open>IRegisteredConfigurationPropertySchema\<close>, with the fields the registry reads or writes.
  \<open>None\<close> is an absent property. \<open>ptype\<close> and \<open>pdefault\<close> are the schema's \<^verbatim>\<open>type\<close> and
  \<^verbatim>\<open>default\<close>; \<open>policy\<close> is \<^verbatim>\<open>policy.name\<close>; \<open>psource\<close> is \<^verbatim>\<open>source\<close>.
\<close>

record IRegisteredConfigurationPropertySchema =
  ptype :: "schema_type option"
  pdefault :: "json option"
  scope :: "ConfigurationScope option"
  restricted :: "bool option"
  included :: "bool option"
  disallowConfigurationDefault :: "bool option"
  policy :: "string option"
  deprecationMessage :: "string option"
  markdownDeprecationMessage :: "string option"
  defaultDefaultValue :: "json option"
  psource :: "IExtensionInfo option"
  defaultValueSource :: "ConfigurationDefaultValueSource option"

text \<open>\<^verbatim>\<open>IConfigurationDefaultOverrideValue\<close>: the merged default of a key and its provenance.\<close>

record IConfigurationDefaultOverrideValue =
  dvalue :: json
  dsource :: "ConfigurationDefaultValueSource option"

text \<open>
  The entry of \<^verbatim>\<open>configurationDefaultsOverrides\<close> for a key: the contributions in order
  (\<^verbatim>\<open>IConfigurationDefaultOverride\<close>, a value and its extension) and the merged value.
\<close>

record DefaultsOverridesEntry =
  configurationDefaultOverrides :: "(json \<times> IExtensionInfo option) list"
  configurationDefaultOverrideValue :: "IConfigurationDefaultOverrideValue option"

text \<open>\<^verbatim>\<open>IConfigurationDefaults\<close>: the \<^verbatim>\<open>overrides\<close> dictionary and the contributing extension.\<close>

type_synonym IConfigurationDefaults = "obj \<times> IExtensionInfo option"

text \<open>
  \<^verbatim>\<open>ConfigurationRegistry\<close>. The JSON schema tables (\<^verbatim>\<open>allSettings\<close> and its siblings), the
  list of contributors and the two emitters are written by the registry and read by nothing
  in it; they are left out.
\<close>

record ConfigurationRegistry =
  registeredConfigurationDefaults :: "IConfigurationDefaults list"
  configurationDefaultsOverrides :: "(string \<times> DefaultsOverridesEntry) list"
  defaultLanguageConfigurationOverridesNode :: "(string \<times> IRegisteredConfigurationPropertySchema) list"
  configurationProperties :: "(string \<times> IRegisteredConfigurationPropertySchema) list"
  policyConfigurations :: "(string \<times> string) list"
  excludedConfigurationProperties :: "(string \<times> IRegisteredConfigurationPropertySchema) list"
  overrideIdentifiers :: "string list"

definition new_ConfigurationRegistry :: ConfigurationRegistry where
  "new_ConfigurationRegistry =
     \<lparr>registeredConfigurationDefaults = [], configurationDefaultsOverrides = [],
      defaultLanguageConfigurationOverridesNode = [], configurationProperties = [],
      policyConfigurations = [], excludedConfigurationProperties = [], overrideIdentifiers = []\<rparr>"

text \<open>\<^verbatim>\<open>IConfigurationNode\<close>; an absent \<^verbatim>\<open>properties\<close> or \<^verbatim>\<open>allOf\<close> is the empty list.\<close>

datatype IConfigurationNode =
  ConfigurationNode
    (node_scope: "ConfigurationScope option")
    (properties: "(string \<times> IRegisteredConfigurationPropertySchema) list")
    (allOf: "IConfigurationNode list")
    (extensionInfo: "IExtensionInfo option")
    (restrictedProperties: "string list option")

fun getDefaultValue :: "schema_type option \<Rightarrow> json" where
  "getDefaultValue t =
     (let name = (case t of
                    None \<Rightarrow> None
                  | Some (TypeName n) \<Rightarrow> Some n
                  | Some (TypeNames ns) \<Rightarrow> (case ns of [] \<Rightarrow> None | n # _ \<Rightarrow> Some n))
      in if name = Some ''boolean'' then JBool False
         else if name = Some ''integer'' \<or> name = Some ''number'' then JNum 0
         else if name = Some ''string'' then JStr []
         else if name = Some ''array'' then JArr [] []
         else if name = Some ''object'' then JObj []
         else JNull)"

definition updatePropertyDefaultValue ::
  "ConfigurationRegistry \<Rightarrow> string \<Rightarrow> IRegisteredConfigurationPropertySchema
     \<Rightarrow> IRegisteredConfigurationPropertySchema" where
  "updatePropertyDefaultValue reg key property =
     (let configurationdefaultOverride =
            (case map_of (configurationDefaultsOverrides reg) key of
               None \<Rightarrow> None
             | Some entry \<Rightarrow> configurationDefaultOverrideValue entry);
          (defaultValue, defaultSource) =
            (case configurationdefaultOverride of
               Some ov \<Rightarrow>
                 if disallowConfigurationDefault property \<noteq> Some True \<or> dsource ov = None
                 then (Some (dvalue ov), dsource ov)
                 else (defaultDefaultValue property, None)
             | None \<Rightarrow> (defaultDefaultValue property, None))
      in property\<lparr>pdefault := Some (case defaultValue of
                                        None \<Rightarrow> getDefaultValue (ptype property)
                                      | Some v \<Rightarrow> v),
                   defaultValueSource := defaultSource\<rparr>)"

subsection \<open>Reading a plain object\<close>

text \<open>
  The registry keeps its properties in a plain object (\<^verbatim>\<open>this.configurationProperties = {}\<close>),
  and a plain object inherits the members of \<^verbatim>\<open>Object.prototype\<close>. A read \<^verbatim>\<open>o[key]\<close> gives
  the own property, or else the inherited member when the key is one of the twelve names
  below, or else \<^verbatim>\<open>undefined\<close>. The inherited member is a function and, for \<^verbatim>\<open>__proto__\<close>,
  the prototype itself: it is defined and truthy, and it has none of the properties that
  the registry reads of a schema.
\<close>

definition object_prototype_members :: "string list" where
  "object_prototype_members =
     [''constructor'', ''__defineGetter__'', ''__defineSetter__'', ''hasOwnProperty'',
      ''__lookupGetter__'', ''__lookupSetter__'', ''isPrototypeOf'', ''propertyIsEnumerable'',
      ''toString'', ''valueOf'', ''__proto__'', ''toLocaleString'']"

datatype 'a property = Undefined | Own 'a | Inherited

definition get_property :: "(string \<times> 'a) list \<Rightarrow> string \<Rightarrow> 'a property" where
  "get_property ob key =
     (case map_of ob key of
        Some v \<Rightarrow> Own v
      | None \<Rightarrow> if key \<in> set object_prototype_members then Inherited else Undefined)"

subsection \<open>Registering properties\<close>

text \<open>
  \<^verbatim>\<open>validateProperty\<close>: the message of the first check that fails, in the words of the
  source with the arguments filled in, or \<open>None\<close> for \<^verbatim>\<open>null\<close>. The third check is
  \<^verbatim>\<open>getConfigurationProperties()[property] !== undefined\<close>, a read of the plain object.
\<close>

definition validateProperty ::
  "ConfigurationRegistry \<Rightarrow> string \<Rightarrow> IRegisteredConfigurationPropertySchema \<Rightarrow> string option" where
  "validateProperty reg property schema =
     (if trim property = [] then Some ''Cannot register an empty property''
      else if OVERRIDE_PROPERTY_REGEX_test property
      then Some (''Cannot register '' @ [CHR 0x27] @ property @ [CHR 0x27]
                 @ ''. This matches property pattern '' @ [CHR 0x27, CHR 0x5C, CHR 0x5C]
                 @ ''[.*'' @ [CHR 0x5C, CHR 0x5C] @ '']$'' @ [CHR 0x27]
                 @ '' for describing language specific editor settings. Use ''
                 @ [CHR 0x27] @ ''configurationDefaults'' @ [CHR 0x27] @ '' contribution.'')
      else if get_property (configurationProperties reg) property \<noteq> Undefined
      then Some (''Cannot register '' @ [CHR 0x27] @ property @ [CHR 0x27]
                 @ ''. This property is already registered.'')
      else (case policy schema of
              None \<Rightarrow> None
            | Some name \<Rightarrow>
                if name = [] then None
                else (case map_of (policyConfigurations reg) name of
                        None \<Rightarrow> None
                      | Some owner \<Rightarrow>
                          Some (''Cannot register '' @ [CHR 0x27] @ property @ [CHR 0x27]
                                @ ''. The associated policy '' @ name
                                @ '' is already registered with '' @ owner @ ''.''))))"

text \<open>
  The body of the loop over the properties of a node in \<^verbatim>\<open>validateAndRegisterProperties\<close>.
  The state is the registry and the bucket of registered keys. The first component of the
  result is the property as the node keeps it, \<open>None\<close> when it is deleted from the node. The
  source mutates the property object, which the node and the registry share.
\<close>

definition registerProperty ::
  "bool \<Rightarrow> IExtensionInfo option \<Rightarrow> string list option \<Rightarrow> ConfigurationScope \<Rightarrow> string
     \<Rightarrow> IRegisteredConfigurationPropertySchema \<Rightarrow> ConfigurationRegistry \<times> string list
     \<Rightarrow> IRegisteredConfigurationPropertySchema option \<times> ConfigurationRegistry \<times> string list" where
  "registerProperty validate ext restrictedProps scope0 key property st =
     (case st of (reg, bucket) \<Rightarrow>
        if validate \<and> validateProperty reg key property \<noteq> None then (None, reg, bucket)
        else
          (let p1 = property\<lparr>psource := ext, defaultDefaultValue := pdefault property\<rparr>;
               p2 = updatePropertyDefaultValue reg key p1;
               p3 = (if OVERRIDE_PROPERTY_REGEX_test key then p2\<lparr>scope := None\<rparr>
                     else p2\<lparr>scope := (case scope p2 of None \<Rightarrow> Some scope0 | Some s \<Rightarrow> Some s),
                             restricted :=
                               (case restricted p2 of
                                  None \<Rightarrow> Some (case restrictedProps of
                                                  None \<Rightarrow> False
                                                | Some ks \<Rightarrow> key \<in> set ks)
                                | Some b \<Rightarrow> Some b)\<rparr>)
           in if included p3 = Some False
              then (None,
                    reg\<lparr>excludedConfigurationProperties :=
                          AList.update key p3 (excludedConfigurationProperties reg)\<rparr>,
                    bucket)
              else
                (let p4 = (if (deprecationMessage p3 = None \<or> deprecationMessage p3 = Some [])
                              \<and> markdownDeprecationMessage p3 \<noteq> None
                              \<and> markdownDeprecationMessage p3 \<noteq> Some []
                           then p3\<lparr>deprecationMessage := markdownDeprecationMessage p3\<rparr>
                           else p3)
                 in (Some p4,
                     reg\<lparr>configurationProperties :=
                           AList.update key p4 (configurationProperties reg),
                         policyConfigurations :=
                           (case policy p4 of
                              None \<Rightarrow> policyConfigurations reg
                            | Some name \<Rightarrow>
                                if name = [] then policyConfigurations reg
                                else AList.update name key (policyConfigurations reg))\<rparr>,
                     push_new key bucket))))"

text \<open>The loop over the properties of one node, in key order.\<close>

fun registerProperties ::
  "bool \<Rightarrow> IExtensionInfo option \<Rightarrow> string list option \<Rightarrow> ConfigurationScope
     \<Rightarrow> (string \<times> IRegisteredConfigurationPropertySchema) list
     \<Rightarrow> ConfigurationRegistry \<times> string list
     \<Rightarrow> (string \<times> IRegisteredConfigurationPropertySchema) list \<times> ConfigurationRegistry \<times> string list" where
  "registerProperties validate ext rp sc [] st = ([], st)"
| "registerProperties validate ext rp sc ((key, property) # rest) st =
     (case registerProperty validate ext rp sc key property st of
        (kept, st1) \<Rightarrow>
          (case registerProperties validate ext rp sc rest st1 of
             (rest', st2) \<Rightarrow>
               ((case kept of None \<Rightarrow> rest' | Some p \<Rightarrow> (key, p) # rest'), st2)))"

text \<open>
  \<^verbatim>\<open>validateAndRegisterProperties\<close>: the properties of the node, then its \<^verbatim>\<open>allOf\<close> nodes in
  order, with the same extension, restricted list and the scope of the node. It returns the
  node as the source leaves it, and the state.
\<close>

fun validateAndRegisterProperties ::
  "bool \<Rightarrow> IExtensionInfo option \<Rightarrow> string list option \<Rightarrow> ConfigurationScope
     \<Rightarrow> IConfigurationNode \<Rightarrow> ConfigurationRegistry \<times> string list
     \<Rightarrow> IConfigurationNode \<times> ConfigurationRegistry \<times> string list"
and validateAndRegisterNodes ::
  "bool \<Rightarrow> IExtensionInfo option \<Rightarrow> string list option \<Rightarrow> ConfigurationScope
     \<Rightarrow> IConfigurationNode list \<Rightarrow> ConfigurationRegistry \<times> string list
     \<Rightarrow> IConfigurationNode list \<times> ConfigurationRegistry \<times> string list" where
  "validateAndRegisterProperties validate ext rp sc0 (ConfigurationNode nsc props subNodes ei nrp) st =
     (let sc = (case nsc of None \<Rightarrow> sc0 | Some s \<Rightarrow> s)
      in case registerProperties validate ext rp sc props st of
           (props', st1) \<Rightarrow>
             (case validateAndRegisterNodes validate ext rp sc subNodes st1 of
                (subNodes', st2) \<Rightarrow> (ConfigurationNode nsc props' subNodes' ei nrp, st2)))"
| "validateAndRegisterNodes validate ext rp sc [] st = ([], st)"
| "validateAndRegisterNodes validate ext rp sc (node # nodes) st =
     (case validateAndRegisterProperties validate ext rp sc node st of
        (node', st1) \<Rightarrow>
          (case validateAndRegisterNodes validate ext rp sc nodes st1 of
             (nodes', st2) \<Rightarrow> (node' # nodes', st2)))"

text \<open>
  \<^verbatim>\<open>doRegisterConfigurations\<close>, \<^verbatim>\<open>registerConfigurations\<close> and \<^verbatim>\<open>registerConfiguration\<close>. The
  scope handed down is \<^verbatim>\<open>undefined\<close>, so the default \<^verbatim>\<open>WINDOW\<close> of the parameter applies.
  The result is the nodes as left, the registry and the set of keys of the update event.
\<close>

fun doRegisterConfigurations ::
  "IConfigurationNode list \<Rightarrow> bool \<Rightarrow> ConfigurationRegistry \<times> string list
     \<Rightarrow> IConfigurationNode list \<times> ConfigurationRegistry \<times> string list" where
  "doRegisterConfigurations [] validate st = ([], st)"
| "doRegisterConfigurations (configuration # configurations) validate st =
     (case validateAndRegisterProperties validate (extensionInfo configuration)
             (restrictedProperties configuration) WINDOW configuration st of
        (configuration', st1) \<Rightarrow>
          (case doRegisterConfigurations configurations validate st1 of
             (configurations', st2) \<Rightarrow> (configuration' # configurations', st2)))"

definition registerConfigurations ::
  "ConfigurationRegistry \<Rightarrow> IConfigurationNode list \<Rightarrow> bool
     \<Rightarrow> IConfigurationNode list \<times> ConfigurationRegistry \<times> string list" where
  "registerConfigurations reg configurations validate =
     doRegisterConfigurations configurations validate (reg, [])"

definition registerConfiguration ::
  "ConfigurationRegistry \<Rightarrow> IConfigurationNode \<Rightarrow> bool
     \<Rightarrow> IConfigurationNode list \<times> ConfigurationRegistry \<times> string list" where
  "registerConfiguration reg configuration validate =
     registerConfigurations reg [configuration] validate"

subsection \<open>Registering default values\<close>

text \<open>
  The object spread \<^verbatim>\<open>{ ...a, ...b }\<close>: a copy of \<open>a\<close> in which every property of \<open>b\<close> is
  assigned, in the key order of \<open>b\<close>.
\<close>

definition object_spread :: "obj \<Rightarrow> obj \<Rightarrow> obj" where
  "object_spread a b =
     fold (\<lambda>key acc. case map_of b key of None \<Rightarrow> acc | Some v \<Rightarrow> AList.update key v acc)
          (object_keys b) a"

text \<open>
  The provenance map after a contribution: the extension, when there is one, is recorded
  under \<^verbatim>\<open>propertyKey.objectKey\<close> for every key of the contributed object.
\<close>

definition record_sources ::
  "string \<Rightarrow> obj \<Rightarrow> IExtensionInfo option \<Rightarrow> (string \<times> IExtensionInfo) list
     \<Rightarrow> (string \<times> IExtensionInfo) list" where
  "record_sources propertyKey valueObject valuesSource sources =
     (case valuesSource of
        None \<Rightarrow> sources
      | Some ext \<Rightarrow>
          fold (\<lambda>objectKey acc. AList.update (propertyKey @ ''.'' @ objectKey) ext acc)
               (object_keys valueObject) sources)"

text \<open>
  \<^verbatim>\<open>existingDefaultOverride?.source ?? new Map()\<close> followed by the test
  \<^verbatim>\<open>source instanceof Map\<close>: \<open>None\<close> when the provenance so far is a single extension.
\<close>

definition source_map_of ::
  "IConfigurationDefaultOverrideValue option \<Rightarrow> (string \<times> IExtensionInfo) list option" where
  "source_map_of existingDefaultOverride =
     (case existingDefaultOverride of
        None \<Rightarrow> Some []
      | Some existing \<Rightarrow>
          (case dsource existing of
             None \<Rightarrow> Some []
           | Some (SourceMap m) \<Rightarrow> Some m
           | Some (ExtensionSource e) \<Rightarrow> None))"

text \<open>
  \<^verbatim>\<open>mergeDefaultConfigurationsForConfigurationProperty\<close>. The property is read from the
  plain object of the registry. The existing default is
  \<^verbatim>\<open>existingDefaultOverride?.value ?? property?.defaultDefaultValue\<close>, where \<^verbatim>\<open>??\<close> passes over
  \<^verbatim>\<open>null\<close> and \<^verbatim>\<open>undefined\<close>. An inherited member is not \<^verbatim>\<open>undefined\<close> and its \<^verbatim>\<open>type\<close> is not
  \<^verbatim>\<open>'object'\<close>, so for such a key the contribution is no object setting. \<open>None\<close> is the
  source's \<^verbatim>\<open>undefined\<close> result.
\<close>

definition existing_default_value ::
  "IRegisteredConfigurationPropertySchema property \<Rightarrow> IConfigurationDefaultOverrideValue option
     \<Rightarrow> json option" where
  "existing_default_value property existingDefaultOverride =
     (let fallback = (case property of Own p \<Rightarrow> defaultDefaultValue p | _ \<Rightarrow> None)
      in case existingDefaultOverride of
           None \<Rightarrow> fallback
         | Some existing \<Rightarrow> if dvalue existing = JNull then fallback else Some (dvalue existing))"

definition isObjectSetting ::
  "IRegisteredConfigurationPropertySchema property \<Rightarrow> json option \<Rightarrow> json \<Rightarrow> bool" where
  "isObjectSetting property existingDefaultValue v \<longleftrightarrow>
     isObject v
     \<and> (case property of
          Own p \<Rightarrow> ptype p = Some (TypeName ''object'')
        | Inherited \<Rightarrow> False
        | Undefined \<Rightarrow> (case existingDefaultValue of None \<Rightarrow> True | Some e \<Rightarrow> isObject e))"

definition mergeDefaultConfigurationsForConfigurationProperty ::
  "ConfigurationRegistry \<Rightarrow> string \<Rightarrow> json \<Rightarrow> IExtensionInfo option
     \<Rightarrow> IConfigurationDefaultOverrideValue option \<Rightarrow> IConfigurationDefaultOverrideValue option" where
  "mergeDefaultConfigurationsForConfigurationProperty reg propertyKey v valuesSource existingDefaultOverride =
     (let property = get_property (configurationProperties reg) propertyKey;
          existingDefaultValue = existing_default_value property existingDefaultOverride
      in if isObjectSetting property existingDefaultValue v
         then (case source_map_of existingDefaultOverride of
                 None \<Rightarrow> None
               | Some sources \<Rightarrow>
                   (case v of
                      JObj valueObject \<Rightarrow>
                        Some \<lparr>dvalue = JObj (object_spread
                                 (case existingDefaultValue of Some (JObj e) \<Rightarrow> e | _ \<Rightarrow> [])
                                 valueObject),
                              dsource = Some (SourceMap
                                 (record_sources propertyKey valueObject valuesSource sources))\<rparr>
                    | _ \<Rightarrow> None))
         else Some \<lparr>dvalue = v, dsource = map_option ExtensionSource valuesSource\<rparr>)"

text \<open>
  \<^verbatim>\<open>mergeDefaultConfigurationsForOverrideIdentifier\<close>, for a key \<^verbatim>\<open>[identifier]\<close>. The merged
  value starts from \<^verbatim>\<open>existingDefaultOverride?.value || {}\<close>, and the loop runs over
  \<^verbatim>\<open>Object.keys(configurationValueObject)\<close>, which raises on \<^verbatim>\<open>null\<close>. The registry makes
  the merged value itself, always a plain object; the body of the loop is given for any
  value all the same. Read from a plain object, a name that the object inherits holds a
  function, which is neither \<^verbatim>\<open>undefined\<close> nor an object (for \<^verbatim>\<open>__proto__\<close> it holds the
  prototype, an object). Read from an array, the names that an array inherits hold
  functions too. On a boolean, a number or a string the assignment raises, the methods of
  a class being strict code.
\<close>

definition array_prototype_members :: "string list" where
  "array_prototype_members =
     [''constructor'', ''at'', ''concat'', ''copyWithin'', ''fill'', ''find'', ''findIndex'',
      ''findLast'', ''findLastIndex'', ''lastIndexOf'', ''pop'', ''push'', ''reverse'', ''shift'',
      ''unshift'', ''slice'', ''sort'', ''splice'', ''includes'', ''indexOf'', ''join'', ''keys'',
      ''entries'', ''values'', ''forEach'', ''filter'', ''flat'', ''flatMap'', ''map'', ''every'',
      ''some'', ''reduce'', ''reduceRight'', ''toLocaleString'', ''toString'', ''toReversed'',
      ''toSorted'', ''toSpliced'', ''with'']"

definition set_sources ::
  "bool \<Rightarrow> IExtensionInfo option \<Rightarrow> string \<Rightarrow> json \<Rightarrow> (string \<times> IExtensionInfo) list
     \<Rightarrow> (string \<times> IExtensionInfo) list" where
  "set_sources objectSetting valueSource propertyKey propertyDefaultValue sources =
     (if objectSetting
      then record_sources propertyKey (own_properties propertyDefaultValue) valueSource sources
      else (case valueSource of
              Some ext \<Rightarrow> AList.update propertyKey ext sources
            | None \<Rightarrow> AList.delete propertyKey sources))"

definition merge_override_property ::
  "IExtensionInfo option \<Rightarrow> string \<Rightarrow> json \<Rightarrow> json \<times> (string \<times> IExtensionInfo) list
     \<Rightarrow> error + json \<times> (string \<times> IExtensionInfo) list" where
  "merge_override_property valueSource propertyKey propertyDefaultValue acc =
     (case acc of (defaultValue, sources) \<Rightarrow>
        (case defaultValue of
           JObj d \<Rightarrow>
             (let existing = get_property d propertyKey;
                  objectSetting =
                    (isObject propertyDefaultValue
                     \<and> (case existing of
                          Undefined \<Rightarrow> True
                        | Own e \<Rightarrow> isObject e
                        | Inherited \<Rightarrow> propertyKey = ''__proto__''));
                  stored =
                    (if objectSetting
                     then JObj (object_spread (case existing of Own (JObj e) \<Rightarrow> e | _ \<Rightarrow> [])
                                  (own_properties propertyDefaultValue))
                     else propertyDefaultValue)
              in Inr (JObj (AList.update propertyKey stored d),
                      set_sources objectSetting valueSource propertyKey propertyDefaultValue sources))
         | JArr es ps \<Rightarrow>
             (let existing = array_get es ps propertyKey;
                  objectSetting =
                    (isObject propertyDefaultValue
                     \<and> (case existing of
                          None \<Rightarrow> propertyKey \<notin> set array_prototype_members
                                   \<and> propertyKey \<notin> set object_prototype_members
                        | Some e \<Rightarrow> isObject e));
                  stored =
                    (if objectSetting
                     then JObj (object_spread (case existing of Some (JObj e) \<Rightarrow> e | _ \<Rightarrow> [])
                                  (own_properties propertyDefaultValue))
                     else propertyDefaultValue)
              in case array_set es ps propertyKey stored of
                   Inl err \<Rightarrow> Inl err
                 | Inr (es', ps') \<Rightarrow>
                     Inr (JArr es' ps',
                          set_sources objectSetting valueSource propertyKey propertyDefaultValue sources))
         | _ \<Rightarrow> Inl TypeError))"

definition mergeDefaultConfigurationsForOverrideIdentifier ::
  "string \<Rightarrow> json \<Rightarrow> IExtensionInfo option \<Rightarrow> IConfigurationDefaultOverrideValue option
     \<Rightarrow> error + IConfigurationDefaultOverrideValue option" where
  "mergeDefaultConfigurationsForOverrideIdentifier overrideKey configurationValueObject
       valueSource existingDefaultOverride =
     (case source_map_of existingDefaultOverride of
        None \<Rightarrow> Inr None
      | Some sources \<Rightarrow>
          if configurationValueObject = JNull then Inl TypeError
          else
            (case fold (\<lambda>propertyKey acc.
                          case acc of
                            Inl err \<Rightarrow> Inl err
                          | Inr st \<Rightarrow>
                              (case map_of (own_properties configurationValueObject) propertyKey of
                                 None \<Rightarrow> acc
                               | Some pv \<Rightarrow> merge_override_property valueSource propertyKey pv st))
                       (own_keys (own_properties configurationValueObject))
                       (Inr (case existingDefaultOverride of
                               None \<Rightarrow> JObj []
                             | Some existing \<Rightarrow>
                                 if truthy (dvalue existing) then dvalue existing else JObj [],
                             sources)) of
               Inl err \<Rightarrow> Inl err
             | Inr (merged, sources') \<Rightarrow>
                 Inr (Some \<lparr>dvalue = merged, dsource = Some (SourceMap sources')\<rparr>)))"

text \<open>
  \<^verbatim>\<open>updateDefaultOverrideProperty\<close>: the merged value of an override-section key becomes a
  registry property of type object.
\<close>

definition updateDefaultOverrideProperty ::
  "ConfigurationRegistry \<Rightarrow> string \<Rightarrow> IConfigurationDefaultOverrideValue
     \<Rightarrow> IExtensionInfo option \<Rightarrow> ConfigurationRegistry" where
  "updateDefaultOverrideProperty reg key newDefaultOverride src =
     (let property =
            \<lparr>ptype = Some (TypeName ''object''), pdefault = Some (dvalue newDefaultOverride),
             scope = None, restricted = None, included = None,
             disallowConfigurationDefault = None, policy = None, deprecationMessage = None,
             markdownDeprecationMessage = None,
             defaultDefaultValue = Some (dvalue newDefaultOverride),
             psource = src, defaultValueSource = map_option ExtensionSource src\<rparr>
      in reg\<lparr>configurationProperties := AList.update key property (configurationProperties reg),
             defaultLanguageConfigurationOverridesNode :=
               AList.update key property (defaultLanguageConfigurationOverridesNode reg)\<rparr>)"

text \<open>
  The body of the inner loop of \<^verbatim>\<open>doRegisterDefaultConfigurations\<close>, for one key of one
  contribution. The state is the registry, the bucket and the override identifiers collected
  for \<^verbatim>\<open>doRegisterOverrideIdentifiers\<close>. For a plain key the source ends with
  \<^verbatim>\<open>if (property) { this.updatePropertyDefaultValue(key, property); ... }\<close> on the property
  read from the plain object. When that is an inherited member, the two assignments of
  \<^verbatim>\<open>updatePropertyDefaultValue\<close> set \<^verbatim>\<open>default\<close> and \<^verbatim>\<open>defaultValueSource\<close> on a function of
  \<^verbatim>\<open>Object.prototype\<close> (for \<^verbatim>\<open>__proto__\<close>, on the prototype): on an object that is no part
  of the registry, whose fields stay as they are.
\<close>

definition set_entry ::
  "string \<Rightarrow> DefaultsOverridesEntry \<Rightarrow> ConfigurationRegistry \<Rightarrow> ConfigurationRegistry" where
  "set_entry key entry reg =
     reg\<lparr>configurationDefaultsOverrides := AList.update key entry (configurationDefaultsOverrides reg)\<rparr>"

definition registerDefault ::
  "IExtensionInfo option \<Rightarrow> string \<Rightarrow> json
     \<Rightarrow> ConfigurationRegistry \<times> string list \<times> string list
     \<Rightarrow> error + (ConfigurationRegistry \<times> string list \<times> string list)" where
  "registerDefault src key v st =
     (case st of (reg, bucket, identifiers') \<Rightarrow>
        (let bucket' = push_new key bucket;
             entry0 = (case map_of (configurationDefaultsOverrides reg) key of
                         Some e \<Rightarrow> e
                       | None \<Rightarrow> \<lparr>configurationDefaultOverrides = [],
                                   configurationDefaultOverrideValue = None\<rparr>);
             entry1 = entry0\<lparr>configurationDefaultOverrides :=
                               configurationDefaultOverrides entry0 @ [(v, src)]\<rparr>;
             reg1 = set_entry key entry1 reg
         in if OVERRIDE_PROPERTY_REGEX_test key
            then (case mergeDefaultConfigurationsForOverrideIdentifier key v src
                         (configurationDefaultOverrideValue entry1) of
                    Inl e \<Rightarrow> Inl e
                  | Inr None \<Rightarrow> Inr (reg1, bucket', identifiers')
                  | Inr (Some newDefaultOverride) \<Rightarrow>
                      Inr (updateDefaultOverrideProperty
                             (set_entry key
                                (entry1\<lparr>configurationDefaultOverrideValue := Some newDefaultOverride\<rparr>)
                                reg1)
                             key newDefaultOverride src,
                           bucket', identifiers' @ overrideIdentifiersFromKey key))
            else (case mergeDefaultConfigurationsForConfigurationProperty reg1 key v src
                         (configurationDefaultOverrideValue entry1) of
                    None \<Rightarrow> Inr (reg1, bucket', identifiers')
                  | Some newDefaultOverride \<Rightarrow>
                      (let reg2 = set_entry key
                                    (entry1\<lparr>configurationDefaultOverrideValue := Some newDefaultOverride\<rparr>)
                                    reg1
                       in Inr (case get_property (configurationProperties reg2) key of
                                 Own property \<Rightarrow>
                                   reg2\<lparr>configurationProperties :=
                                     AList.update key (updatePropertyDefaultValue reg2 key property)
                                       (configurationProperties reg2)\<rparr>
                               | _ \<Rightarrow> reg2,
                               bucket', identifiers')))))"

text \<open>The loop over the keys of one contribution, and the loop over the contributions.\<close>

fun registerDefaults_keys ::
  "IExtensionInfo option \<Rightarrow> obj \<Rightarrow> string list
     \<Rightarrow> ConfigurationRegistry \<times> string list \<times> string list
     \<Rightarrow> error + (ConfigurationRegistry \<times> string list \<times> string list)" where
  "registerDefaults_keys src ovs [] st = Inr st"
| "registerDefaults_keys src ovs (key # ks) st =
     (case map_of ovs key of
        None \<Rightarrow> registerDefaults_keys src ovs ks st
      | Some v \<Rightarrow>
          (case registerDefault src key v st of
             Inl e \<Rightarrow> Inl e
           | Inr st1 \<Rightarrow> registerDefaults_keys src ovs ks st1))"

fun registerDefaults_list ::
  "IConfigurationDefaults list \<Rightarrow> ConfigurationRegistry \<times> string list \<times> string list
     \<Rightarrow> error + (ConfigurationRegistry \<times> string list \<times> string list)" where
  "registerDefaults_list [] st = Inr st"
| "registerDefaults_list ((ovs, src) # rest) st =
     (case registerDefaults_keys src ovs (object_keys ovs) st of
        Inl e \<Rightarrow> Inl e
      | Inr st1 \<Rightarrow> registerDefaults_list rest st1)"

text \<open>
  \<^verbatim>\<open>doRegisterDefaultConfigurations\<close> and \<^verbatim>\<open>registerDefaultConfigurations\<close>: the registry
  and the keys of the update event. \<^verbatim>\<open>doRegisterOverrideIdentifiers\<close> adds the identifiers
  to the set of the registry.
\<close>

definition doRegisterDefaultConfigurations ::
  "ConfigurationRegistry \<Rightarrow> IConfigurationDefaults list \<Rightarrow> string list
     \<Rightarrow> error + (ConfigurationRegistry \<times> string list)" where
  "doRegisterDefaultConfigurations reg configurationDefaults bucket =
     (case registerDefaults_list configurationDefaults
             (reg\<lparr>registeredConfigurationDefaults :=
                     registeredConfigurationDefaults reg @ configurationDefaults\<rparr>, bucket, []) of
        Inl e \<Rightarrow> Inl e
      | Inr (reg1, bucket1, identifiers') \<Rightarrow>
          Inr (reg1\<lparr>overrideIdentifiers := fold push_new identifiers' (overrideIdentifiers reg1)\<rparr>,
               bucket1))"

definition registerDefaultConfigurations ::
  "ConfigurationRegistry \<Rightarrow> IConfigurationDefaults list
     \<Rightarrow> error + (ConfigurationRegistry \<times> string list)" where
  "registerDefaultConfigurations reg configurationDefaults =
     doRegisterDefaultConfigurations reg configurationDefaults []"

text \<open>The default recorded in the registry for a key, after the contributions so far.\<close>

definition default_override_of ::
  "ConfigurationRegistry \<Rightarrow> string \<Rightarrow> IConfigurationDefaultOverrideValue option" where
  "default_override_of reg key =
     (case map_of (configurationDefaultsOverrides reg) key of
        None \<Rightarrow> None
      | Some entry \<Rightarrow> configurationDefaultOverrideValue entry)"

text \<open>The default recorded for a key once a registration of defaults has returned.\<close>

definition default_after :: "error + (ConfigurationRegistry \<times> string list) \<Rightarrow> string
    \<Rightarrow> error + IConfigurationDefaultOverrideValue option" where
  "default_after r key = map_sum id (\<lambda>(reg, bucket). default_override_of reg key) r"




definition defaults_scalar_then_objects :: "IConfigurationDefaults list" where
  "defaults_scalar_then_objects =
     [([(''k'', JNum 5)], Some ''ext1''),
      ([(''k'', JObj [(''x'', JNum 1)])], Some ''ext2''),
      ([(''k'', JObj [(''y'', JNum 2)])], Some ''ext3'')]"

definition defaults_valueOf :: "IConfigurationDefaults list" where
  "defaults_valueOf =
     [([(''valueOf'', JObj [(''a'', JNum 1)])], Some ''ext1''),
      ([(''valueOf'', JObj [(''b'', JNum 2)])], Some ''ext2'')]"

lemmas registry_eval = registerDefaultConfigurations_def doRegisterDefaultConfigurations_def
  registerDefault_def mergeDefaultConfigurationsForConfigurationProperty_def
  get_property_def object_prototype_members_def
  existing_default_value_def isObjectSetting_def source_map_of_def object_spread_def
  record_sources_def set_entry_def default_override_of_def default_after_def
  new_ConfigurationRegistry_def OVERRIDE_PROPERTY_REGEX_test_def object_keys_def push_new_def
  Let_def

text \<open>
  The properties of a node and of its \<^verbatim>\<open>allOf\<close> nodes in the order in which
  \<^verbatim>\<open>validateAndRegisterProperties\<close> meets them, each with the scope in force, and the effect
  of one of them on the state.
\<close>

definition register_step ::
  "bool \<Rightarrow> IExtensionInfo option \<Rightarrow> string list option
     \<Rightarrow> ConfigurationScope \<times> string \<times> IRegisteredConfigurationPropertySchema
     \<Rightarrow> ConfigurationRegistry \<times> string list \<Rightarrow> ConfigurationRegistry \<times> string list" where
  "register_step validate ext rp x st =
     (case x of (sc, key, property) \<Rightarrow> snd (registerProperty validate ext rp sc key property st))"




definition plain_property :: IRegisteredConfigurationPropertySchema where
  "plain_property =
     \<lparr>ptype = Some (TypeName ''string''), pdefault = None, scope = None, restricted = None,
      included = None, disallowConfigurationDefault = None, policy = None,
      deprecationMessage = None, markdownDeprecationMessage = None, defaultDefaultValue = None,
      psource = None, defaultValueSource = None\<rparr>"




lemmas register_eval = registerConfiguration_def registerConfigurations_def registerProperty_def
  validateProperty_def updatePropertyDefaultValue_def trim_def is_space_def
  get_property_def object_prototype_members_def
  OVERRIDE_PROPERTY_REGEX_test_def new_ConfigurationRegistry_def push_new_def Let_def
  register_step_def plain_property_def

section \<open>Merging\<close>

definition merge_key :: "obj \<Rightarrow> string \<Rightarrow> obj \<Rightarrow> obj" where
  "merge_key target key src =
     (case map_of target key of
        None \<Rightarrow> src
      | Some tv \<Rightarrow>
          (case (map_of src key, tv) of
             (Some (JObj s), JObj t) \<Rightarrow> AList.update key (JObj (mergeContents s t)) src
           | _ \<Rightarrow> AList.update key tv src))"

definition merged_value :: "json option \<Rightarrow> json \<Rightarrow> json" where
  "merged_value sv tv =
     (case (sv, tv) of (Some (JObj s), JObj t) \<Rightarrow> JObj (mergeContents s t) | _ \<Rightarrow> tv)"

lemma mergeContents_fold:
  "mergeContents source target = fold (merge_key target) (object_keys target) source"
  by (subst mergeContents.simps) (simp add: merge_key_def [abs_def])

lemma merge_key_same:
  "map_of (merge_key target k src) k =
     (case map_of target k of
        None \<Rightarrow> map_of src k
      | Some tv \<Rightarrow> Some (merged_value (map_of src k) tv))"
  by (auto simp: merge_key_def merged_value_def update_conv split: option.splits json.splits)

lemma merge_key_other: "k \<noteq> key \<Longrightarrow> map_of (merge_key target key src) k = map_of src k"
  by (auto simp: merge_key_def update_conv split: option.splits json.splits)

lemma fold_merge_key:
  "distinct ks \<Longrightarrow>
   map_of (fold (merge_key target) ks src) k =
     (if k \<in> set ks then map_of (merge_key target k src) k else map_of src k)"
proof (induction ks arbitrary: src)
  case Nil
  then show ?case by simp
next
  case (Cons key rest)
  show ?case
  proof (cases "k = key")
    case True
    with Cons show ?thesis by simp
  next
    case False
    have "map_of (merge_key target k (merge_key target key src)) k
            = map_of (merge_key target k src) k"
      using False by (simp add: merge_key_same merge_key_other split: option.splits)
    with Cons False show ?thesis by (simp add: merge_key_other)
  qed
qed

text \<open>The merged object, read as a map.\<close>

lemma map_of_mergeContents:
  "map_of (mergeContents source target) k =
     (case map_of target k of
        None \<Rightarrow> map_of source k
      | Some tv \<Rightarrow> Some (merged_value (map_of source k) tv))"
proof -
  have "k \<in> set (object_keys target) \<longleftrightarrow> map_of target k \<noteq> None"
    by (simp add: object_keys_def map_of_eq_None_iff)
  then show ?thesis
    by (simp add: mergeContents_fold fold_merge_key object_keys_def merge_key_same
             split: option.splits)
qed


text \<open>A value that is not an object overwrites whatever the accumulator holds on its path.\<close>

lemma accessSetting_merge_defined:
  "accessSetting (JObj target) p = Some v \<Longrightarrow> \<not> isObject v \<Longrightarrow>
   accessSetting (JObj (mergeContents source target)) p = Some v"
proof (induction p arbitrary: source target)
  case Nil
  then show ?case by auto
next
  case (Cons c cs)
  from Cons.prems obtain tv where tv: "map_of target c = Some tv" "accessSetting tv cs = Some v"
    by (auto split: option.splits)
  show ?case
  proof (cases "\<exists>s t. map_of source c = Some (JObj s) \<and> tv = JObj t")
    case True
    then obtain s t where st: "map_of source c = Some (JObj s)" "tv = JObj t" by blast
    with tv Cons.prems(2) have "accessSetting (JObj (mergeContents s t)) cs = Some v"
      using Cons.IH by simp
    with tv st show ?thesis
      by (simp add: map_of_mergeContents merged_value_def)
  next
    case False
    then have "merged_value (map_of source c) tv = tv"
      by (auto simp: merged_value_def split: option.splits json.splits)
    with tv show ?thesis by (simp add: map_of_mergeContents)
  qed
qed

text \<open>
  A target that has nothing on the path, and no scalar in its way, leaves the accumulator's
  value on the path as it is.
\<close>

lemma accessSetting_merge_absent:
  "accessSetting (JObj target) p = None \<Longrightarrow> \<not> scalar_on_path target p \<Longrightarrow>
   accessSetting (JObj (mergeContents source target)) p = accessSetting (JObj source) p"
proof (induction target p arbitrary: source rule: scalar_on_path.induct)
  case (1 tree)
  then show ?case by simp
next
  case (2 tree c)
  then show ?case by (simp add: map_of_mergeContents split: option.splits)
next
  case (3 tree c d ds)
  show ?case
  proof (cases "map_of tree c")
    case None
    then show ?thesis by (simp add: map_of_mergeContents)
  next
    case (Some tv)
    with "3.prems"(2) obtain t where t: "tv = JObj t" "\<not> scalar_on_path t (d # ds)"
      by (cases tv) auto
    from Some t "3.prems"(1) have abs: "accessSetting (JObj t) (d # ds) = None" by simp
    show ?thesis
    proof (cases "\<exists>s. map_of source c = Some (JObj s)")
      case True
      then obtain s where s: "map_of source c = Some (JObj s)" by blast
      have "accessSetting (JObj (mergeContents s t)) (d # ds) = accessSetting (JObj s) (d # ds)"
        using "3.IH"[OF Some t(1) abs t(2)] .
      with Some t s show ?thesis
        by (simp add: map_of_mergeContents merged_value_def)
    next
      case False
      then have mv: "merged_value (map_of source c) tv = tv"
        by (auto simp: merged_value_def split: option.splits json.splits)
      from False have "accessSetting (JObj source) (c # d # ds) = None"
        by (cases "map_of source c"; simp) (rename_tac x, case_tac x; simp)
      with Some mv abs t show ?thesis by (simp add: map_of_mergeContents)
    qed
  qed
qed

lemma split_dot_nonempty: "split_dot k \<noteq> []"
  by (cases k) (auto split: list.splits)

lemma getValue_defined_nonempty:
  assumes "getValue L (Some k) = Some v" and "\<not> isObject v"
  shows "k \<noteq> [] \<and> \<not> isEmpty L"
proof -
  from assms have k: "k \<noteq> []" by (auto simp: getValue_def)
  obtain c cs where p: "split_dot k = c # cs"
    using split_dot_nonempty[of k] by (cases "split_dot k") auto
  from assms k p have "contents L \<noteq> []"
    by (auto simp: getValue_def getConfigurationValue_def)
  then have "\<not> isEmpty L"
    by (cases "contents L") (auto simp: isEmpty_def object_keys_def)
  with k show ?thesis by simp
qed

lemma getValue_merge_other_defined:
  assumes "getValue L (Some k) = Some v" and "\<not> isObject v"
  shows "getValue (merge_other acc L) (Some k) = Some v"
proof -
  from assms have ne: "k \<noteq> []" "\<not> isEmpty L" by (auto dest: getValue_defined_nonempty)
  with assms show ?thesis
    by (simp add: getValue_def merge_other_def getConfigurationValue_def
                  accessSetting_merge_defined)
qed

lemma getValue_merge_other_absent:
  assumes "getValue M (Some k) = None" and "\<not> scalar_above (contents M) k"
  shows "getValue (merge_other acc M) (Some k) = getValue acc (Some k)"
proof (cases "isEmpty M")
  case True
  then show ?thesis by (simp add: merge_other_def)
next
  case False
  from assms(1) have "k \<noteq> []" by (auto simp: getValue_def)
  with assms False show ?thesis
    by (simp add: getValue_def merge_other_def getConfigurationValue_def scalar_above_def
                  accessSetting_merge_absent)
qed

lemma getValue_merge_absent:
  "\<forall>M \<in> set higher. getValue M (Some k) = None \<and> \<not> scalar_above (contents M) k \<Longrightarrow>
   getValue (merge acc higher) (Some k) = getValue acc (Some k)"
  by (induction higher arbitrary: acc) (simp_all add: merge_def getValue_merge_other_absent)

lemma merge_append: "merge this (xs @ ys) = merge (merge this xs) ys"
  by (simp add: merge_def)

lemma merge_Cons: "merge this (x # xs) = merge (merge_other this x) xs"
  by (simp add: merge_def)

lemma merge_Nil: "merge this [] = this"
  by (simp add: merge_def)

lemma value_from_highest_layer_decomp:
  assumes "getValue L (Some k) = Some v"
    and "\<forall>M \<in> set higher. getValue M (Some k) = None"
  shows "value_from_highest_layer (lower @ L # higher) k = Some v"
proof -
  from assms(2) have "filter (\<lambda>M. getValue M (Some k) \<noteq> None) (rev higher) = []"
    by (simp add: filter_empty_conv)
  with assms(1) show ?thesis by (simp add: value_from_highest_layer_def)
qed

text \<open>
  C1 fails as stated: a higher layer that holds a scalar at \<open>a\<close> does not define \<open>a.b\<close>, yet
  it overwrites the whole subtree \<open>a\<close> of the lower layer, so the merged model has lost the
  value of \<open>a.b\<close> that the highest defining layer gives.
\<close>

theorem merge_precedence_counterexample:
  "getValue layer_ab1 (Some ''a.b'') = Some (JNum 1)
   \<and> getValue layer_a5 (Some ''a.b'') = None
   \<and> value_from_highest_layer [layer_ab1, layer_a5] ''a.b'' = Some (JNum 1)
   \<and> getValue (merge layer_ab1 [layer_a5]) (Some ''a.b'') = None"
  by (simp add: example_layers model_eval value_from_highest_layer_def)

text \<open>
  C1, amended: for layers merged in priority order, if the highest layer that defines key
  \<open>k\<close> gives it a value that is not an object, and no layer above that one holds a scalar
  on a proper prefix of the path of \<open>k\<close>, then \<open>getValue k\<close> on the merged model is that
  value, the value from the highest-priority layer that defines \<open>k\<close>.
\<close>

theorem merge_precedence:
  assumes layers: "this # others = lower @ L # higher"
    and defined: "getValue L (Some k) = Some v" and scalar: "\<not> isObject v"
    and above: "\<forall>M \<in> set higher. getValue M (Some k) = None \<and> \<not> scalar_above (contents M) k"
  shows "getValue (merge this others) (Some k) = Some v
         \<and> value_from_highest_layer (this # others) k = Some v"
proof -
  have "getValue (merge this others) (Some k) = Some v"
  proof (cases lower)
    case Nil
    with layers have "this = L" "others = higher" by simp_all
    with defined above show ?thesis by (simp add: getValue_merge_absent)
  next
    case (Cons first rest)
    with layers have "others = rest @ L # higher" by simp
    then have "merge this others = merge (merge_other (merge this rest) L) higher"
      by (simp add: merge_append merge_Cons)
    with defined scalar above show ?thesis
      by (simp add: getValue_merge_absent getValue_merge_other_defined)
  qed
  moreover from above have "\<forall>M \<in> set higher. getValue M (Some k) = None" by simp
  then have "value_from_highest_layer (lower @ L # higher) k = Some v"
    using defined by (rule value_from_highest_layer_decomp[rotated])
  ultimately show ?thesis using layers by simp
qed

theorem merge_precedence_witness:
  "getValue layer_ab2_ac3 (Some ''a.b'') = Some (JNum 2)
   \<and> getValue layer_ac4 (Some ''a.b'') = None
   \<and> \<not> scalar_above (contents layer_ac4) ''a.b''
   \<and> getValue (merge layer_ab1 [layer_ab2_ac3, layer_ac4]) (Some ''a.b'') = Some (JNum 2)
   \<and> value_from_highest_layer [layer_ab1, layer_ab2_ac3, layer_ac4] ''a.b'' = Some (JNum 2)"
proof -
  have h1: "getValue layer_ab2_ac3 (Some ''a.b'') = Some (JNum 2)"
    by (simp add: example_layers model_eval)
  have h2: "\<forall>M \<in> set [layer_ac4].
              getValue M (Some ''a.b'') = None \<and> \<not> scalar_above (contents M) ''a.b''"
    by (simp add: example_layers model_eval scalar_above_def)
  have h3: "layer_ab1 # [layer_ab2_ac3, layer_ac4] = [layer_ab1] @ layer_ab2_ac3 # [layer_ac4]"
    by simp
  from merge_precedence[OF h3 h1 _ h2] h1 h2 show ?thesis by simp
qed

section \<open>Reading the configuration\<close>

lemma userConfiguration_fst:
  "fst (userConfiguration c) =
     (case userConfiguration_memo c of
        Some u \<Rightarrow> u
      | None \<Rightarrow> if isEmpty (remoteUserConfiguration c) then localUserConfiguration c
                else merge (localUserConfiguration c) [remoteUserConfiguration c])"
  by (simp add: userConfiguration_def Let_def split: option.splits)

lemma userConfiguration_snd:
  "snd (userConfiguration c) = c\<lparr>userConfiguration_memo := Some (fst (userConfiguration c))\<rparr>"
  by (simp add: userConfiguration_def Let_def split: option.splits)

lemma getWorkspaceConsolidatedConfiguration_fst:
  "fst (getWorkspaceConsolidatedConfiguration c) =
     (case workspaceConsolidatedConfiguration c of
        Some m \<Rightarrow> m
      | None \<Rightarrow> merge (defaultConfiguration c)
                  [applicationConfiguration c, fst (userConfiguration c),
                   workspaceConfiguration c, memoryConfiguration c])"
proof (cases "userConfiguration c")
  case (Pair u c1)
  then have "c1 = c\<lparr>userConfiguration_memo := Some u\<rparr>"
    using userConfiguration_snd[of c] by simp
  with Pair show ?thesis
    by (simp add: getWorkspaceConsolidatedConfiguration_def Let_def split: option.splits)
qed

lemma getWorkspaceConsolidatedConfiguration_snd:
  "snd (getWorkspaceConsolidatedConfiguration c) =
     (case workspaceConsolidatedConfiguration c of
        Some m \<Rightarrow> c
      | None \<Rightarrow> c\<lparr>userConfiguration_memo := Some (fst (userConfiguration c)),
                  workspaceConsolidatedConfiguration :=
                    Some (fst (getWorkspaceConsolidatedConfiguration c))\<rparr>)"
proof (cases "userConfiguration c")
  case (Pair u c1)
  then have "c1 = c\<lparr>userConfiguration_memo := Some u\<rparr>"
    using userConfiguration_snd[of c] by simp
  with Pair show ?thesis
    by (simp add: getWorkspaceConsolidatedConfiguration_def Let_def split: option.splits)
qed

lemma same_layers_user: "same_layers c (snd (userConfiguration c))"
  by (simp add: same_layers_def userConfiguration_snd)

lemma same_layers_workspace: "same_layers c (snd (getWorkspaceConsolidatedConfiguration c))"
  by (simp add: same_layers_def getWorkspaceConsolidatedConfiguration_snd split: option.splits)

lemma same_layers_trans: "same_layers a b \<Longrightarrow> same_layers b c \<Longrightarrow> same_layers a c"
  by (simp add: same_layers_def)

lemma same_layers_folder: "same_layers c (snd (getFolderConsolidatedConfiguration c folder))"
  using same_layers_workspace[of c]
  by (auto simp: same_layers_def getFolderConsolidatedConfiguration_def Let_def
           split: option.splits prod.splits)

lemma same_layers_resource:
  "same_layers c (snd (getConsolidatedConfigurationModelForResource c ovr workspace))"
proof -
  obtain w c1 where w: "getWorkspaceConsolidatedConfiguration c = (w, c1)" by fastforce
  then have 1: "same_layers c c1" using same_layers_workspace[of c] by simp
  have 2: "same_layers c (snd (getFolderConsolidatedConfiguration c1 root))" for root
    using same_layers_trans[OF 1 same_layers_folder] .
  show ?thesis using w 1
    by (auto simp: getConsolidatedConfigurationModelForResource_def Let_def
             split: option.splits prod.splits)
       (metis 2 snd_conv)+
qed

lemma Configuration_getValue_eq:
  "result_value (Configuration_getValue c section ovr workspace) =
     map_sum id (\<lambda>m. getValue (apply_policy (policyConfiguration c) section m) section)
       (project_override (fst (getConsolidatedConfigurationModelForResource c ovr workspace))
          (overrideIdentifier ovr))"
proof -
  obtain m0 c1 where r: "getConsolidatedConfigurationModelForResource c ovr workspace = (m0, c1)"
    by fastforce
  then have "policyConfiguration c1 = policyConfiguration c"
    using same_layers_resource[of c ovr workspace] by (simp add: same_layers_def)
  with r show ?thesis
    by (auto simp: result_value_def Configuration_getValue_def getConsolidatedConfigurationModel_def
        project_override_def apply_policy_def split: sum.splits option.splits)
qed

lemma forResource_no_workspace:
  "getConsolidatedConfigurationModelForResource c ovr None = getWorkspaceConsolidatedConfiguration c"
  by (simp add: getConsolidatedConfigurationModelForResource_def split: prod.splits)

lemma forResource_no_resource:
  "resource ovr = None \<Longrightarrow>
   getConsolidatedConfigurationModelForResource c ovr workspace = getWorkspaceConsolidatedConfiguration c"
  by (simp add: getConsolidatedConfigurationModelForResource_def split: prod.splits option.splits)

lemma userConfiguration_upd:
  "fst (userConfiguration (c\<lparr>folderConfigurations := fc, memoryConfigurationByResource := mr\<rparr>))
     = fst (userConfiguration c)"
  by (simp add: userConfiguration_fst split: option.splits)

lemma wcc_upd:
  "fst (getWorkspaceConsolidatedConfiguration (c\<lparr>folderConfigurations := fc, memoryConfigurationByResource := mr\<rparr>))
     = fst (getWorkspaceConsolidatedConfiguration c)"
  by (simp add: getWorkspaceConsolidatedConfiguration_fst userConfiguration_upd split: option.splits)

text \<open>
  C9: with an undefined workspace, \<^verbatim>\<open>getValue\<close> with a resource is \<^verbatim>\<open>getValue\<close> without
  one, value and memo fields alike; and whenever the workspace or the resource is missing,
  the value read does not depend on the folder configurations nor on the per-resource memory
  models, so these take effect only when both a workspace and a resource are supplied.
\<close>

theorem getValue_without_workspace:
  "Configuration_getValue c sect \<lparr>overrideIdentifier = oi, resource = Some r\<rparr> None
     = Configuration_getValue c sect \<lparr>overrideIdentifier = oi, resource = None\<rparr> None
   \<and> (workspace = None \<or> resource ovr = None \<longrightarrow>
        result_value (Configuration_getValue
           (c\<lparr>folderConfigurations := fc, memoryConfigurationByResource := mr\<rparr>) sect ovr workspace)
        = result_value (Configuration_getValue c sect ovr workspace))"
proof -
  have 1: "Configuration_getValue c sect \<lparr>overrideIdentifier = oi, resource = Some r\<rparr> None
     = Configuration_getValue c sect \<lparr>overrideIdentifier = oi, resource = None\<rparr> None"
    by (simp add: Configuration_getValue_def getConsolidatedConfigurationModel_def forResource_no_workspace)
  have 2: "result_value (Configuration_getValue
           (c\<lparr>folderConfigurations := fc, memoryConfigurationByResource := mr\<rparr>) sect ovr workspace)
        = result_value (Configuration_getValue c sect ovr workspace)"
    if "workspace = None \<or> resource ovr = None"
  proof -
    have eq: "getConsolidatedConfigurationModelForResource c' ovr workspace = getWorkspaceConsolidatedConfiguration c'" for c'
      using that forResource_no_workspace forResource_no_resource by blast
    show ?thesis
      by (simp add: Configuration_getValue_eq eq wcc_upd)
  qed
  from 1 2 show ?thesis by blast
qed

text \<open>
  C3, amended: when the policy layer defines for key \<open>k\<close> a value that is not an object,
  \<^verbatim>\<open>getValue(k, overrides, workspace)\<close> returns that value, whatever the other layers, the
  resource and the override identifier are; the only other outcome is that the projection on
  a given override identifier raises before the policy is merged, and then the read raises
  the same error.
\<close>

theorem policy_precedence:
  assumes "getValue (policyConfiguration c) (Some k) = Some v" and "\<not> isObject v"
  shows "result_value (Configuration_getValue c (Some k) ovr workspace) = Inr (Some v)
         \<or> (\<exists>identifier e. overrideIdentifier ovr = Some identifier \<and> identifier \<noteq> []
               \<and> override (fst (getConsolidatedConfigurationModelForResource c ovr workspace)) identifier
                   = Inl e
               \<and> result_value (Configuration_getValue c (Some k) ovr workspace) = Inl e)"
proof -
  from assms have ne: "\<not> isEmpty (policyConfiguration c)"
    by (auto dest: getValue_defined_nonempty)
  have pol: "getValue (apply_policy (policyConfiguration c) (Some k) m) (Some k) = Some v" for m
    using assms ne
    by (simp add: apply_policy_def merge_Cons merge_Nil getValue_merge_other_defined)
  show ?thesis
    by (cases "project_override (fst (getConsolidatedConfigurationModelForResource c ovr workspace))
                  (overrideIdentifier ovr)")
       (auto simp: Configuration_getValue_eq pol project_override_def split: option.splits if_splits)
qed

text \<open>
  C3 fails as stated: an object-valued policy entry is merged leaf by leaf into the value of
  the lower layers, so the value returned for \<open>a\<close> is not the policy's value for \<open>a\<close>.
\<close>

theorem policy_precedence_counterexample:
  "getValue (policyConfiguration (cfg_empty\<lparr>policyConfiguration := layer_ax1, localUserConfiguration := layer_ay2\<rparr>))
       (Some ''a'') = Some (JObj [(''x'', JNum 1)])
   \<and> result_value (Configuration_getValue
        (cfg_empty\<lparr>policyConfiguration := layer_ax1, localUserConfiguration := layer_ay2\<rparr>)
        (Some ''a'') no_overrides None) = Inr (Some (JObj [(''y'', JNum 2), (''x'', JNum 1)]))"
  by (simp add: cfg_empty_def layer_ax1_def layer_ay2_def no_overrides_def config_eval model_eval)

theorem policy_precedence_witness:
  "getValue (policyConfiguration (cfg_empty\<lparr>policyConfiguration := layer_a5, localUserConfiguration := layer_ab1\<rparr>))
       (Some ''a'') = Some (JNum 5)
   \<and> result_value (Configuration_getValue
        (cfg_empty\<lparr>policyConfiguration := layer_a5, localUserConfiguration := layer_ab1\<rparr>)
        (Some ''a'') no_overrides None) = Inr (Some (JNum 5))"
proof -
  let ?c = "cfg_empty\<lparr>policyConfiguration := layer_a5, localUserConfiguration := layer_ab1\<rparr>"
  have h: "getValue (policyConfiguration ?c) (Some ''a'') = Some (JNum 5)"
    by (simp add: cfg_empty_def example_layers model_eval)
  from policy_precedence[OF h, of no_overrides None] h show ?thesis
    by (simp add: no_overrides_def)
qed

text \<open>
  C5, amended: an update of the memory layer without a resource empties the memo of the
  consolidated workspace model, and the next read of that model is the merge of the current
  layers; an update with a resource leaves that memo as it is. An update that removes a
  value, or whose key is not an override-section key, always succeeds.
\<close>

theorem updateValue_invalidation:
  "(Configuration_updateValue c key v None = Inr c' \<longrightarrow>
      workspaceConsolidatedConfiguration c' = None
      \<and> fst (getWorkspaceConsolidatedConfiguration c') =
          merge (defaultConfiguration c')
            [applicationConfiguration c', fst (userConfiguration c'),
             workspaceConfiguration c', memoryConfiguration c'])
   \<and> (Configuration_updateValue c key v (Some r) = Inr c' \<longrightarrow>
      workspaceConsolidatedConfiguration c' = workspaceConsolidatedConfiguration c)
   \<and> (v = None \<or> \<not> OVERRIDE_PROPERTY_REGEX_test key \<longrightarrow>
      (\<exists>c''. Configuration_updateValue c key v res = Inr c''))"
proof -
  have 1: "workspaceConsolidatedConfiguration c' = None" if "Configuration_updateValue c key v None = Inr c'"
    using that by (auto simp: Configuration_updateValue_def Let_def split: sum.splits option.splits)
  have 2: "workspaceConsolidatedConfiguration c' = workspaceConsolidatedConfiguration c"
    if "Configuration_updateValue c key v (Some r) = Inr c'"
    using that by (auto simp: Configuration_updateValue_def Let_def split: sum.splits option.splits)
  have 3: "\<exists>c''. Configuration_updateValue c key v res = Inr c''"
    if "v = None \<or> \<not> OVERRIDE_PROPERTY_REGEX_test key"
    using that
    by (auto simp: Configuration_updateValue_def setValue_def Model_updateValue_def Let_def
             split: sum.splits option.splits)
  from 1 2 3 show ?thesis
    by (auto simp: getWorkspaceConsolidatedConfiguration_fst)
qed

text \<open>
  C5 fails as stated: after a read for a resource of folder \<open>/f\<close> has filled both memos, an
  update without a resource leaves the per-folder memo filled, and an update with a resource
  leaves the workspace memo filled.
\<close>

theorem updateValue_invalidation_counterexample:
  "Configuration_getValue cfg_folder (Some ''a.b'') in_folder_f (Some workspace_f)
     = Inr (Some (JNum 1), cfg_folder_read)
   \<and> Configuration_updateValue cfg_folder_read ''a.b'' (Some (JNum 7)) None
     = Inr (cfg_folder_read\<lparr>memoryConfiguration := layer_ab7,
                              workspaceConsolidatedConfiguration := None\<rparr>)
   \<and> foldersConsolidatedConfigurations
        (cfg_folder_read\<lparr>memoryConfiguration := layer_ab7,
                          workspaceConsolidatedConfiguration := None\<rparr>) = [(''/f'', layer_ab1_ac4)]
   \<and> Configuration_updateValue cfg_folder_read ''a.b'' (Some (JNum 7)) (Some ''/f/x'')
     = Inr (cfg_folder_read\<lparr>memoryConfigurationByResource := [(''/f/x'', layer_ab7)]\<rparr>)
   \<and> workspaceConsolidatedConfiguration
        (cfg_folder_read\<lparr>memoryConfigurationByResource := [(''/f/x'', layer_ab7)]\<rparr>) = Some layer_ab1"
  by (simp add: example_configs example_layers config_eval model_eval update_eval)

theorem updateValue_invalidation_witness:
  "Configuration_updateValue cfg_folder_read ''a.b'' (Some (JNum 7)) None
     = Inr (cfg_folder_read\<lparr>memoryConfiguration := layer_ab7,
                              workspaceConsolidatedConfiguration := None\<rparr>)
   \<and> fst (getWorkspaceConsolidatedConfiguration
             (cfg_folder_read\<lparr>memoryConfiguration := layer_ab7,
                               workspaceConsolidatedConfiguration := None\<rparr>)) = layer_ab7
   \<and> Configuration_updateValue cfg_folder_read ''a.b'' (Some (JNum 7)) (Some ''/f/x'')
     = Inr (cfg_folder_read\<lparr>memoryConfigurationByResource := [(''/f/x'', layer_ab7)]\<rparr>)
   \<and> \<not> OVERRIDE_PROPERTY_REGEX_test ''a.b''"
proof -
  have u1: "Configuration_updateValue cfg_folder_read ''a.b'' (Some (JNum 7)) None
     = Inr (cfg_folder_read\<lparr>memoryConfiguration := layer_ab7,
                              workspaceConsolidatedConfiguration := None\<rparr>)"
    by (simp add: example_configs example_layers config_eval model_eval update_eval)
  have u2: "Configuration_updateValue cfg_folder_read ''a.b'' (Some (JNum 7)) (Some ''/f/x'')
     = Inr (cfg_folder_read\<lparr>memoryConfigurationByResource := [(''/f/x'', layer_ab7)]\<rparr>)"
    by (simp add: example_configs example_layers config_eval model_eval update_eval)
  have r: "\<not> OVERRIDE_PROPERTY_REGEX_test ''a.b''"
    by (simp add: OVERRIDE_PROPERTY_REGEX_test_def)
  have m: "merge layer_ab1 [createEmptyModel, createEmptyModel, createEmptyModel, layer_ab7] = layer_ab7"
    by (simp add: example_configs example_layers config_eval model_eval)
  from updateValue_invalidation[where c=cfg_folder_read and key="''a.b''" and v="Some (JNum 7)"
         and c'="cfg_folder_read\<lparr>memoryConfiguration := layer_ab7,
                   workspaceConsolidatedConfiguration := None\<rparr>"
         and r="''/f/x''" and res=None] u1 u2 r m
  show ?thesis
    by (simp add: example_configs userConfiguration_fst)
qed

theorem getValue_without_workspace_witness:
  "Configuration_getValue cfg_folder_read (Some ''a.c'') in_folder_f None
     = Configuration_getValue cfg_folder_read (Some ''a.c'') no_overrides None
   \<and> result_value (Configuration_getValue cfg_folder_read (Some ''a.c'') in_folder_f None) = Inr None
   \<and> result_value (Configuration_getValue cfg_folder_read (Some ''a.c'') in_folder_f (Some workspace_f))
        = Inr (Some (JNum 4))
   \<and> result_value (Configuration_getValue
         (cfg_folder_read\<lparr>folderConfigurations := [], memoryConfigurationByResource := [(''/f/x'', layer_ab7)]\<rparr>)
         (Some ''a.b'') in_folder_f None) = Inr (Some (JNum 1))"
proof -
  have v: "result_value (Configuration_getValue cfg_folder_read (Some ''a.c'') in_folder_f None) = Inr None"
    "result_value (Configuration_getValue cfg_folder_read (Some ''a.c'') in_folder_f (Some workspace_f))
        = Inr (Some (JNum 4))"
    "result_value (Configuration_getValue cfg_folder_read (Some ''a.b'') in_folder_f None) = Inr (Some (JNum 1))"
    by (simp_all add: example_configs example_layers config_eval model_eval)
  from getValue_without_workspace[where c=cfg_folder_read and sect="Some ''a.c''" and oi=None
          and r="''/f/x''" and workspace=None and ovr=in_folder_f and fc="[]"
          and mr="[(''/f/x'', layer_ab7)]"]
       getValue_without_workspace[where c=cfg_folder_read and sect="Some ''a.b''" and oi=None
          and r="''/f/x''" and workspace=None and ovr=in_folder_f and fc="[]"
          and mr="[(''/f/x'', layer_ab7)]"] v
  show ?thesis
    by (simp add: in_folder_f_def no_overrides_def)
qed

section \<open>Override projection\<close>

text \<open>The spec's example of C2 holds: the override section wins for its identifier.\<close>

lemma override_fontSize_example:
  "map_sum id (\<lambda>m. getValue m (Some ''fontSize'')) (override model_fontSize ''typescript'')
     = Inr (Some (JNum 14))
   \<and> map_sum id (\<lambda>m. getValue m (Some ''fontSize'')) (override model_fontSize ''python'')
     = Inr (Some (JNum 12))"
  by (simp add: model_fontSize_def override_eval model_eval)

text \<open>
  C2, at the failing input: the override section of \<open>typescript\<close> defines \<open>enabled\<close> as
  \<open>false\<close>, and the projection still answers the base value \<open>true\<close>, because the source
  tests the truthiness of the override value.
\<close>

theorem override_falsy_value_ignored:
  "getContentsForOverrideIdentifer model_enabled ''typescript'' = Some [(''enabled'', JBool False)]
   \<and> map_sum id (\<lambda>m. getValue m (Some ''enabled'')) (override model_enabled ''typescript'')
     = Inr (Some (JBool True))"
  by (simp add: model_enabled_def override_eval model_eval)

text \<open>
  An array over an array is merged index by index: \<open>[90]\<close> over \<open>[80, 100, 120]\<close> gives
  \<open>[90, 100, 120]\<close>. An object over an array is assigned name by name: the length is cut to
  1 and \<open>wide\<close> becomes a named property of the array. Both projections return. The
  projection raises when a section writes into \<^verbatim>\<open>null\<close>, or sets a length that is none.
\<close>

lemma override_array_examples:
  "map_sum id (\<lambda>m. getValue m (Some ''rulers'')) (override model_rulers ''typescript'')
     = Inr (Some (JArr [Some (JNum 90), Some (JNum 100), Some (JNum 120)] []))
   \<and> map_sum id (\<lambda>m. getValue m (Some ''rulers'')) (override model_rulers ''python'')
     = Inr (Some (JArr [Some (JNum 80)] [(''wide'', JBool True)]))
   \<and> override model_rulers ''go'' = Inl TypeError
   \<and> override model_rulers ''rust'' = Inl RangeError"
  by (simp add: model_rulers_def override_eval model_eval array_eval)

section \<open>Change events\<close>

text \<open>The spec's example of C4 holds when the key is the only one affected.\<close>

lemma affectsConfiguration_example:
  "affectsConfiguration (event_of [''editor.fontSize'']) ''editor'' None = Inr True
   \<and> affectsConfiguration (event_of [''editor.fontSize'']) ''editor.fontSize'' None = Inr True
   \<and> affectsConfiguration (event_of [''editor.fontSize'']) ''editorX'' None = Inr False"
  by (simp add: event_eval push_new_def)

text \<open>
  C4, at the failing input: \<open>editor.fontSize\<close> is affected and begins with \<open>editor.\<close>, but
  the first occurrence of the padded section in the key string is the one in \<open>editorX\<close>,
  the only one the source looks at, and the answer is false.
\<close>

theorem affectsConfiguration_first_occurrence_only:
  "affects_by_prefix (change (event_of [''editorX'', ''editor.fontSize''])) ''editor''
   \<and> affectsConfiguration (event_of [''editorX'', ''editor.fontSize'']) ''editor'' None = Inr False"
  by (simp add: event_eval push_new_def)

section \<open>Snapshots\<close>

lemma valid_user: "memos_valid c \<Longrightarrow> fst (userConfiguration c) = user_of_layers c"
  by (auto simp: memos_valid_def userConfiguration_fst user_of_layers_def split: option.splits)

lemma valid_workspace:
  "memos_valid c \<Longrightarrow> fst (getWorkspaceConsolidatedConfiguration c) = consolidated_of_layers c"
  using valid_user[of c]
  by (auto simp: memos_valid_def getWorkspaceConsolidatedConfiguration_fst consolidated_of_layers_def
           split: option.splits)

lemma same_layers_user_of: "same_layers c c' \<Longrightarrow> user_of_layers c' = user_of_layers c"
  by (simp add: same_layers_def user_of_layers_def)

lemma same_layers_consolidated_of:
  "same_layers c c' \<Longrightarrow> consolidated_of_layers c' = consolidated_of_layers c"
  by (simp add: same_layers_def consolidated_of_layers_def user_of_layers_def)

lemma valid_after_workspace:
  assumes "memos_valid c"
  shows "memos_valid (snd (getWorkspaceConsolidatedConfiguration c))"
proof (cases "workspaceConsolidatedConfiguration c")
  case None
  let ?c1 = "c\<lparr>userConfiguration_memo := Some (fst (userConfiguration c)),
                workspaceConsolidatedConfiguration :=
                  Some (fst (getWorkspaceConsolidatedConfiguration c))\<rparr>"
  have sl: "same_layers c ?c1" by (simp add: same_layers_def)
  have "memos_valid ?c1"
    using assms valid_user[OF assms] valid_workspace[OF assms]
      same_layers_user_of[OF sl] same_layers_consolidated_of[OF sl]
    by (simp add: memos_valid_def cong: option.case_cong)
  with None show ?thesis by (simp add: getWorkspaceConsolidatedConfiguration_snd)
next
  case (Some m)
  with assms show ?thesis by (simp add: getWorkspaceConsolidatedConfiguration_snd)
qed

lemma valid_folder:
  assumes "memos_valid c"
  shows "fst (getFolderConsolidatedConfiguration c root) =
           (case map_of (folderConfigurations c) root of
              None \<Rightarrow> consolidated_of_layers c
            | Some fc \<Rightarrow> merge (consolidated_of_layers c) [fc])"
proof (cases "map_of (foldersConsolidatedConfigurations c) root")
  case (Some m)
  then have "(root, m) \<in> set (foldersConsolidatedConfigurations c)" by (rule map_of_SomeD)
  with assms have "case map_of (folderConfigurations c) root of
           None \<Rightarrow> False
         | Some folderConfiguration \<Rightarrow> m = merge (consolidated_of_layers c) [folderConfiguration]"
    by (auto simp: memos_valid_def list_all_iff)
  with Some show ?thesis
    by (auto simp: getFolderConsolidatedConfiguration_def split: option.splits)
next
  case None
  obtain w c1 where w: "getWorkspaceConsolidatedConfiguration c = (w, c1)" by fastforce
  then have "w = consolidated_of_layers c" using valid_workspace[OF assms] by simp
  moreover have "folderConfigurations c1 = folderConfigurations c"
    using same_layers_workspace[of c] w by (simp add: same_layers_def)
  ultimately show ?thesis using None w
    by (auto simp: getFolderConsolidatedConfiguration_def Let_def split: option.splits)
qed

lemma valid_resolve:
  assumes "memos_valid c"
  shows "fst (getConsolidatedConfigurationModelForResource c ovr workspace) = resolve_model c ovr workspace"
proof -
  obtain w c1 where w: "getWorkspaceConsolidatedConfiguration c = (w, c1)" by fastforce
  then have w_eq: "w = consolidated_of_layers c" using valid_workspace[OF assms] by simp
  have sl: "same_layers c c1" using same_layers_workspace[of c] w by simp
  have v1: "memos_valid c1" using valid_after_workspace[OF assms] w by simp
  show ?thesis
  proof (cases "\<exists>ws r. workspace = Some ws \<and> resource ovr = Some r")
    case False
    then show ?thesis using w w_eq
      by (auto simp: getConsolidatedConfigurationModelForResource_def resolve_model_def
               split: option.splits)
  next
    case True
    then obtain ws r where wr: "workspace = Some ws" "resource ovr = Some r" by blast
    show ?thesis
    proof (cases "ws r")
      case None
      with wr w w_eq sl show ?thesis
        by (auto simp: getConsolidatedConfigurationModelForResource_def resolve_model_def
                 same_layers_def split: option.splits)
    next
      case (Some root)
      obtain m2 c2 where f: "getFolderConsolidatedConfiguration c1 root = (m2, c2)" by fastforce
      have m2: "m2 = (case map_of (folderConfigurations c) root of
              None \<Rightarrow> consolidated_of_layers c
            | Some fc \<Rightarrow> merge (consolidated_of_layers c) [fc])"
        using valid_folder[OF v1, of root] f sl same_layers_consolidated_of[OF sl]
        by (simp add: same_layers_def cong: option.case_cong)
      have "same_layers c1 c2" using same_layers_folder[of c1 root] f by simp
      with sl have "memoryConfigurationByResource c2 = memoryConfigurationByResource c"
        by (simp add: same_layers_def)
      with Some wr w f m2 show ?thesis
        by (simp add: getConsolidatedConfigurationModelForResource_def resolve_model_def
                 split: option.splits)
    qed
  qed
qed

lemma merge_other_empty: "isEmpty e \<Longrightarrow> merge_other acc e = acc"
  by (simp add: merge_other_def)

lemma merge_single_empty: "isEmpty e \<Longrightarrow> merge m [e] = m"
  by (simp add: merge_def merge_other_empty)

lemma isEmpty_createEmptyModel: "isEmpty createEmptyModel"
  by (simp add: isEmpty_def createEmptyModel_def object_keys_def)

lemma parseConfigurationModel_id: "parseConfigurationModel m = m"
  by (simp add: parseConfigurationModel_def)

lemma map_of_fold_update:
  "distinct (map fst xs) \<Longrightarrow>
   map_of (fold (\<lambda>(folder, model) result. AList.update folder (parseConfigurationModel model) result) xs acc) k
     = (case map_of xs k of Some v \<Rightarrow> Some v | None \<Rightarrow> map_of acc k)"
proof (induction xs arbitrary: acc)
  case Nil
  then show ?case by simp
next
  case (Cons x xs)
  obtain a b where x: "x = (a, b)" by (cases x)
  with Cons.prems have na: "map_of xs a = None" by (simp add: map_of_eq_None_iff)
  from Cons x na show ?case
    by (auto simp: update_conv parseConfigurationModel_id split: option.splits)
qed

lemma parse_folders:
  "map_of (folderConfigurations (parse (fst (toData c)))) = map_of (folderConfigurations c)"
proof
  fix k
  obtain u c1 where u: "userConfiguration c = (u, c1)" by fastforce
  then have "folderConfigurations c1 = folderConfigurations c"
    using same_layers_user[of c] by (simp add: same_layers_def)
  with u show "map_of (folderConfigurations (parse (fst (toData c)))) k = map_of (folderConfigurations c) k"
    by (simp add: parse_def toData_def map_of_fold_update map_of_clearjunk split: option.splits)
qed

lemma parse_layers:
  "defaultConfiguration (parse (fst (toData c))) = defaultConfiguration c"
  "policyConfiguration (parse (fst (toData c))) = policyConfiguration c"
  "applicationConfiguration (parse (fst (toData c))) = applicationConfiguration c"
  "localUserConfiguration (parse (fst (toData c))) = fst (userConfiguration c)"
  "remoteUserConfiguration (parse (fst (toData c))) = createEmptyModel"
  "workspaceConfiguration (parse (fst (toData c))) = workspaceConfiguration c"
  "memoryConfiguration (parse (fst (toData c))) = createEmptyModel"
  "memoryConfigurationByResource (parse (fst (toData c))) = []"
  "workspaceConsolidatedConfiguration (parse (fst (toData c))) = None"
  "foldersConsolidatedConfigurations (parse (fst (toData c))) = []"
  "userConfiguration_memo (parse (fst (toData c))) = None"
proof -
  obtain u c1 where u: "userConfiguration c = (u, c1)" by fastforce
  then have "same_layers c c1" using same_layers_user[of c] by simp
  with u show
    "defaultConfiguration (parse (fst (toData c))) = defaultConfiguration c"
    "policyConfiguration (parse (fst (toData c))) = policyConfiguration c"
    "applicationConfiguration (parse (fst (toData c))) = applicationConfiguration c"
    "localUserConfiguration (parse (fst (toData c))) = fst (userConfiguration c)"
    "remoteUserConfiguration (parse (fst (toData c))) = createEmptyModel"
    "workspaceConfiguration (parse (fst (toData c))) = workspaceConfiguration c"
    "memoryConfiguration (parse (fst (toData c))) = createEmptyModel"
    "memoryConfigurationByResource (parse (fst (toData c))) = []"
    "workspaceConsolidatedConfiguration (parse (fst (toData c))) = None"
    "foldersConsolidatedConfigurations (parse (fst (toData c))) = []"
    "userConfiguration_memo (parse (fst (toData c))) = None"
    by (simp_all add: parse_def toData_def same_layers_def parseConfigurationModel_id)
qed

lemma parse_valid: "memos_valid (parse (fst (toData c)))"
  by (simp add: memos_valid_def parse_layers)

lemma merge_last_empty: "isEmpty e \<Longrightarrow> isEmpty e' \<Longrightarrow> merge m [a, b, d, e] = merge m [a, b, d, e']"
  by (simp add: merge_def merge_other_empty)

lemma parse_consolidated:
  assumes "memos_valid c" and "isEmpty (memoryConfiguration c)"
  shows "consolidated_of_layers (parse (fst (toData c))) = consolidated_of_layers c"
proof -
  have "user_of_layers (parse (fst (toData c))) = user_of_layers c"
    using valid_user[OF assms(1)]
    by (simp add: user_of_layers_def[of "parse (fst (toData c))"] parse_layers isEmpty_createEmptyModel)
  then show ?thesis
    using merge_last_empty[OF isEmpty_createEmptyModel assms(2)]
    by (simp add: consolidated_of_layers_def parse_layers)
qed

text \<open>
  C6, amended: for a configuration whose memory model and per-resource memory models are
  empty, and whose memo fields are empty or hold what the layers give,
  \<^verbatim>\<open>Configuration.parse(c.toData())\<close> resolves every key to the same value as \<open>c\<close>, for every
  section, resource, override identifier and workspace.
\<close>

theorem toData_parse_roundtrip:
  assumes valid: "memos_valid c"
    and mem: "isEmpty (memoryConfiguration c)"
    and memres: "\<forall>m \<in> snd ` set (memoryConfigurationByResource c). isEmpty m"
  shows "result_value (Configuration_getValue (parse (fst (toData c))) sect ovr workspace)
           = result_value (Configuration_getValue c sect ovr workspace)"
proof -
  let ?c' = "parse (fst (toData c))"
  have cons: "consolidated_of_layers ?c' = consolidated_of_layers c"
    by (rule parse_consolidated[OF valid mem])
  have byres: "(case map_of (memoryConfigurationByResource c) r of None \<Rightarrow> m | Some mr \<Rightarrow> merge m [mr]) = m"
    for r m
  proof (cases "map_of (memoryConfigurationByResource c) r")
    case None
    then show ?thesis by simp
  next
    case (Some mr)
    then have "(r, mr) \<in> set (memoryConfigurationByResource c)" by (rule map_of_SomeD)
    with memres have "isEmpty mr" by force
    with Some show ?thesis by (simp add: merge_single_empty)
  qed
  have "resolve_model ?c' ovr workspace = resolve_model c ovr workspace"
    by (simp add: resolve_model_def cons parse_folders parse_layers byres
             split: option.splits)
  then have "fst (getConsolidatedConfigurationModelForResource ?c' ovr workspace)
           = fst (getConsolidatedConfigurationModelForResource c ovr workspace)"
    by (simp add: valid_resolve[OF valid] valid_resolve[OF parse_valid])
  then show ?thesis
    by (simp add: Configuration_getValue_eq parse_layers)
qed

text \<open>
  C6 fails as stated: \<^verbatim>\<open>toData\<close> does not carry the memory layer, so a value set in memory is
  lost by the round trip.
\<close>

theorem toData_parse_roundtrip_counterexample:
  "result_value (Configuration_getValue cfg_memory (Some ''a'') no_overrides None) = Inr (Some (JNum 5))
   \<and> result_value (Configuration_getValue (parse (fst (toData cfg_memory))) (Some ''a'') no_overrides None)
       = Inr None"
  by (simp add: cfg_memory_def example_configs example_layers config_eval model_eval
                parse_def toData_def parseConfigurationModel_def)

theorem toData_parse_roundtrip_witness:
  "memos_valid cfg_folder_touched
   \<and> isEmpty (memoryConfiguration cfg_folder_touched)
   \<and> memoryConfigurationByResource cfg_folder_touched = [(''/f/x'', createEmptyModel)]
   \<and> isEmpty createEmptyModel
   \<and> result_value (Configuration_getValue (parse (fst (toData cfg_folder_touched))) (Some ''a.c'')
        in_folder_f (Some workspace_f)) = Inr (Some (JNum 4))
   \<and> result_value (Configuration_getValue cfg_folder_touched (Some ''a.c'')
        in_folder_f (Some workspace_f)) = Inr (Some (JNum 4))"
proof -
  have v: "memos_valid cfg_folder_touched"
    by (simp add: memos_valid_def consolidated_of_layers_def user_of_layers_def
          cfg_folder_touched_def example_configs example_layers config_eval model_eval)
  have e: "isEmpty (memoryConfiguration cfg_folder_touched)"
    by (simp add: cfg_folder_touched_def example_configs config_eval isEmpty_def object_keys_def)
  have b: "memoryConfigurationByResource cfg_folder_touched = [(''/f/x'', createEmptyModel)]"
    by (simp add: cfg_folder_touched_def example_configs)
  have r: "\<forall>m \<in> snd ` set (memoryConfigurationByResource cfg_folder_touched). isEmpty m"
    by (simp add: b isEmpty_createEmptyModel)
  have g: "result_value (Configuration_getValue cfg_folder_touched (Some ''a.c'')
        in_folder_f (Some workspace_f)) = Inr (Some (JNum 4))"
    by (simp add: cfg_folder_touched_def example_configs example_layers config_eval model_eval)
  from toData_parse_roundtrip[OF v e r, of "Some ''a.c''" in_folder_f "Some workspace_f"] v e b g
  show ?thesis by (simp add: isEmpty_createEmptyModel)
qed

section \<open>Removing a value from memory\<close>

lemma removed_path_absent:
  "p \<noteq> [] \<Longrightarrow> accessSetting (JObj (removeFromValueTree_path t p)) p = None"
proof (induction t p rule: removeFromValueTree_path.induct)
  case (1 valueTree)
  then show ?case by simp
next
  case (2 valueTree c)
  then show ?case by (simp add: delete_conv)
next
  case (3 valueTree c d ds)
  show ?case
  proof (cases "map_of valueTree c")
    case None
    then show ?thesis by simp
  next
    case (Some v)
    show ?thesis
    proof (cases v)
      case (JObj sub)
      with Some "3.IH"[of v sub] show ?thesis
        by (simp add: Let_def delete_conv update_conv)
    qed (use Some in simp_all)
  qed
qed

lemma removed_path_no_scalar:
  "\<not> scalar_on_path t p \<Longrightarrow> \<not> scalar_on_path (removeFromValueTree_path t p) p"
proof (induction t p rule: removeFromValueTree_path.induct)
  case (1 valueTree)
  then show ?case by simp
next
  case (2 valueTree c)
  then show ?case by simp
next
  case (3 valueTree c d ds)
  show ?case
  proof (cases "map_of valueTree c")
    case None
    then show ?thesis by simp
  next
    case (Some v)
    show ?thesis
    proof (cases v)
      case (JObj sub)
      with Some "3.IH"[of v sub] "3.prems" show ?thesis
        by (simp add: Let_def delete_conv update_conv)
    qed (use Some "3.prems" in simp_all)
  qed
qed

lemma removeValue_absent:
  assumes "k \<in> set (keys m)" and "k \<noteq> []"
  shows "getValue (removeValue m k) (Some k) = None"
  using assms
  by (simp add: removeValue_def getValue_def getConfigurationValue_def removeFromValueTree_def
                removed_path_absent split_dot_nonempty)

lemma removeValue_no_scalar:
  assumes "\<not> scalar_above (contents m) k"
  shows "\<not> scalar_above (contents (removeValue m k)) k"
  using assms
  by (simp add: removeValue_def scalar_above_def removeFromValueTree_def removed_path_no_scalar)

lemma merge_absent_source:
  "accessSetting (JObj s) q = None \<Longrightarrow>
   accessSetting (JObj (mergeContents s t)) q = accessSetting (JObj t) q"
proof (induction q arbitrary: s t)
  case Nil
  then show ?case by simp
next
  case (Cons c cs)
  show ?case
  proof (cases "map_of t c")
    case None
    with Cons.prems show ?thesis by (simp add: map_of_mergeContents)
  next
    case (Some tv)
    show ?thesis
    proof (cases "\<exists>s' t'. map_of s c = Some (JObj s') \<and> tv = JObj t'")
      case True
      then obtain s' t' where st: "map_of s c = Some (JObj s')" "tv = JObj t'" by blast
      with Cons.prems have "accessSetting (JObj s') cs = None" by simp
      from Cons.IH[OF this] Some st show ?thesis
        by (simp add: map_of_mergeContents merged_value_def)
    next
      case False
      then have "merged_value (map_of s c) tv = tv"
        by (auto simp: merged_value_def split: option.splits json.splits)
      with Some show ?thesis by (simp add: map_of_mergeContents)
    qed
  qed
qed

lemma merge_cong_source:
  "accessSetting (JObj s1) p = accessSetting (JObj s2) p \<Longrightarrow>
   accessSetting (JObj (mergeContents s1 t)) p = accessSetting (JObj (mergeContents s2 t)) p"
proof (induction p arbitrary: s1 s2 t)
  case Nil
  then show ?case by simp
next
  case (Cons c cs)
  show ?case
  proof (cases "map_of t c")
    case None
    with Cons.prems show ?thesis by (simp add: map_of_mergeContents)
  next
    case (Some tv)
    show ?thesis
    proof (cases tv)
      case (JObj t')
      show ?thesis
      proof (cases "\<exists>a. map_of s1 c = Some (JObj a)"; cases "\<exists>b. map_of s2 c = Some (JObj b)")
        assume "\<exists>a. map_of s1 c = Some (JObj a)" "\<exists>b. map_of s2 c = Some (JObj b)"
        then obtain a b where ab: "map_of s1 c = Some (JObj a)" "map_of s2 c = Some (JObj b)" by blast
        with Cons.prems have "accessSetting (JObj a) cs = accessSetting (JObj b) cs" by simp
        from Cons.IH[OF this] Some JObj ab show ?thesis
          by (simp add: map_of_mergeContents merged_value_def)
      next
        assume 1: "\<exists>a. map_of s1 c = Some (JObj a)" and 2: "\<nexists>b. map_of s2 c = Some (JObj b)"
        then obtain a where a: "map_of s1 c = Some (JObj a)" by blast
        from 2 have mv2: "merged_value (map_of s2 c) tv = tv"
          by (auto simp: merged_value_def split: option.splits json.splits)
        have "accessSetting (JObj a) cs = None"
        proof (cases cs)
          case Nil
          with Cons.prems a 2 show ?thesis by (auto split: option.splits)
        next
          case (Cons d ds)
          from 2 have "accessSetting (JObj s2) (c # d # ds) = None"
            by (cases "map_of s2 c"; simp) (rename_tac x, case_tac x; simp)
          with Cons.prems a Cons show ?thesis by simp
        qed
        from merge_absent_source[OF this] Some JObj a mv2 show ?thesis
          by (simp add: map_of_mergeContents merged_value_def)
      next
        assume 1: "\<nexists>a. map_of s1 c = Some (JObj a)" and 2: "\<exists>b. map_of s2 c = Some (JObj b)"
        then obtain b where b: "map_of s2 c = Some (JObj b)" by blast
        from 1 have mv1: "merged_value (map_of s1 c) tv = tv"
          by (auto simp: merged_value_def split: option.splits json.splits)
        have "accessSetting (JObj b) cs = None"
        proof (cases cs)
          case Nil
          with Cons.prems b 1 show ?thesis by (auto split: option.splits)
        next
          case (Cons d ds)
          from 1 have "accessSetting (JObj s1) (c # d # ds) = None"
            by (cases "map_of s1 c"; simp) (rename_tac x, case_tac x; simp)
          with Cons.prems b Cons show ?thesis by simp
        qed
        from merge_absent_source[OF this] Some JObj b mv1 show ?thesis
          by (simp add: map_of_mergeContents merged_value_def)
      next
        assume 1: "\<nexists>a. map_of s1 c = Some (JObj a)" and 2: "\<nexists>b. map_of s2 c = Some (JObj b)"
        then have "merged_value (map_of s1 c) tv = tv" "merged_value (map_of s2 c) tv = tv"
          by (auto simp: merged_value_def split: option.splits json.splits)
        with Some show ?thesis by (simp add: map_of_mergeContents)
      qed
    qed (use Some in \<open>simp_all add: map_of_mergeContents merged_value_def split: option.splits json.splits\<close>)
  qed
qed

lemma apply_policy_cong:
  assumes "getValue m1 sect = getValue m2 sect"
  shows "getValue (apply_policy p sect m1) sect = getValue (apply_policy p sect m2) sect"
proof (cases "\<not> isEmpty p \<and> getValue p sect \<noteq> None")
  case False
  with assms show ?thesis by (auto simp: apply_policy_def)
next
  case True
  then have pol: "\<not> isEmpty p" and ap: "apply_policy p sect m = merge_other m p" for m
    by (simp_all add: apply_policy_def merge_Cons merge_Nil)
  show ?thesis
  proof (cases "\<exists>k. sect = Some k \<and> k \<noteq> []")
    case False
    with assms have "contents m1 = contents m2"
      by (cases sect) (auto simp: getValue_def split: if_splits)
    then have "contents (merge_other m1 p) = contents (merge_other m2 p)"
      using pol by (simp add: merge_other_def)
    moreover have "getValue X sect = Some (JObj (contents X))" for X
      using False by (cases sect) (auto simp: getValue_def)
    ultimately show ?thesis by (simp add: ap)
  next
    case True
    then obtain k where k: "sect = Some k" "k \<noteq> []" by blast
    with assms have "accessSetting (JObj (contents m1)) (split_dot k)
                   = accessSetting (JObj (contents m2)) (split_dot k)"
      by (simp add: getValue_def getConfigurationValue_def)
    moreover have "apply_policy p (Some k) m = merge_other m p" for m
      using ap[of m] k by simp
    ultimately show ?thesis
      using k pol merge_cong_source[of "contents m1" "split_dot k" "contents m2" "contents p"]
      by (simp add: getValue_def getConfigurationValue_def merge_other_def)
  qed
qed

lemma getFolderConsolidatedConfiguration_fst:
  "fst (getFolderConsolidatedConfiguration c root) =
     (case map_of (foldersConsolidatedConfigurations c) root of
        Some m \<Rightarrow> m
      | None \<Rightarrow>
          (case map_of (folderConfigurations c) root of
             Some fc \<Rightarrow> merge (fst (getWorkspaceConsolidatedConfiguration c)) [fc]
           | None \<Rightarrow> fst (getWorkspaceConsolidatedConfiguration c)))"
proof -
  obtain w c1 where w: "getWorkspaceConsolidatedConfiguration c = (w, c1)" by fastforce
  then have "folderConfigurations c1 = folderConfigurations c"
    using same_layers_workspace[of c] by (simp add: same_layers_def)
  with w show ?thesis
    by (simp add: getFolderConsolidatedConfiguration_def Let_def split: option.splits)
qed

lemma forResource_with_resource:
  assumes "resource ovr = Some r"
  shows "fst (getConsolidatedConfigurationModelForResource c ovr (Some ws)) =
           (case map_of (memoryConfigurationByResource c) r of
              None \<Rightarrow> folder_base c ws r
            | Some m \<Rightarrow> merge (folder_base c ws r) [m])"
proof -
  obtain w c1 where w: "getWorkspaceConsolidatedConfiguration c = (w, c1)" by fastforce
  then have s1: "same_layers c c1" using same_layers_workspace[of c] by simp
  show ?thesis
  proof (cases "ws r")
    case None
    with w s1 assms show ?thesis
      by (simp add: getConsolidatedConfigurationModelForResource_def folder_base_def same_layers_def
               split: option.splits)
  next
    case (Some root)
    obtain m2 c2 where f: "getFolderConsolidatedConfiguration c1 root = (m2, c2)" by fastforce
    then have "same_layers c1 c2" using same_layers_folder[of c1 root] by simp
    with s1 have "memoryConfigurationByResource c2 = memoryConfigurationByResource c"
      by (simp add: same_layers_def)
    with Some w f assms show ?thesis
      by (simp add: getConsolidatedConfigurationModelForResource_def folder_base_def
               split: option.splits)
  qed
qed

lemma folder_base_byResource:
  "folder_base (c\<lparr>memoryConfigurationByResource := x\<rparr>) ws r = folder_base c ws r"
  by (simp add: folder_base_def getFolderConsolidatedConfiguration_fst
                getWorkspaceConsolidatedConfiguration_fst getWorkspaceConsolidatedConfiguration_snd
                userConfiguration_fst
           split: option.splits)

lemma workspace_byResource:
  "fst (getWorkspaceConsolidatedConfiguration (c\<lparr>memoryConfigurationByResource := x\<rparr>))
     = fst (getWorkspaceConsolidatedConfiguration c)"
  by (simp add: getWorkspaceConsolidatedConfiguration_fst userConfiguration_fst split: option.splits)

lemma fallback_global:
  assumes absent: "getValue mem' (Some k) = None" and clear: "\<not> scalar_above (contents mem') k"
    and noid: "overrideIdentifier ovr = None"
    and nores: "resource ovr = None \<or> workspace = None"
  shows "result_value (Configuration_getValue
            (c\<lparr>memoryConfiguration := mem', workspaceConsolidatedConfiguration := None\<rparr>)
            (Some k) ovr workspace)
       = result_value (Configuration_getValue
            (c\<lparr>workspaceConsolidatedConfiguration := None, memoryConfiguration := createEmptyModel\<rparr>)
            (Some k) ovr workspace)"
proof -
  have eq: "getConsolidatedConfigurationModelForResource c' ovr workspace
              = getWorkspaceConsolidatedConfiguration c'" for c'
    using nores forResource_no_workspace forResource_no_resource by blast
  let ?Y = "merge (defaultConfiguration c)
              [applicationConfiguration c, fst (userConfiguration c), workspaceConfiguration c]"
  have u: "fst (userConfiguration (c\<lparr>memoryConfiguration := m, workspaceConsolidatedConfiguration := None\<rparr>))
             = fst (userConfiguration c)" for m
    by (simp add: userConfiguration_fst split: option.splits)
  have w: "fst (getWorkspaceConsolidatedConfiguration
                  (c\<lparr>memoryConfiguration := m, workspaceConsolidatedConfiguration := None\<rparr>))
             = merge_other ?Y m" for m
    by (simp add: getWorkspaceConsolidatedConfiguration_fst u merge_def)
  have w': "fst (getWorkspaceConsolidatedConfiguration
                  (c\<lparr>workspaceConsolidatedConfiguration := None, memoryConfiguration := m\<rparr>))
             = merge_other ?Y m" for m
    by (simp add: getWorkspaceConsolidatedConfiguration_fst userConfiguration_fst merge_def
             split: option.splits)
  have "getValue (merge_other ?Y mem') (Some k) = getValue (merge_other ?Y createEmptyModel) (Some k)"
    using getValue_merge_other_absent[OF absent clear]
    by (simp add: merge_other_empty isEmpty_createEmptyModel)
  then have "getValue (apply_policy (policyConfiguration c) (Some k) (merge_other ?Y mem')) (Some k)
           = getValue (apply_policy (policyConfiguration c) (Some k) (merge_other ?Y createEmptyModel)) (Some k)"
    by (rule apply_policy_cong)
  then show ?thesis
    by (simp add: Configuration_getValue_eq eq w w' noid project_override_def)
qed

lemma fallback_resource:
  assumes absent: "getValue mem' (Some k) = None" and clear: "\<not> scalar_above (contents mem') k"
    and noid: "overrideIdentifier ovr = None"
    and res: "resource ovr = Some r"
  shows "result_value (Configuration_getValue
            (c\<lparr>memoryConfigurationByResource := AList.update r mem' (memoryConfigurationByResource c)\<rparr>)
            (Some k) ovr workspace)
       = result_value (Configuration_getValue
            (c\<lparr>memoryConfigurationByResource :=
                 AList.delete r (AList.update r mem' (memoryConfigurationByResource c))\<rparr>)
            (Some k) ovr workspace)"
proof (cases workspace)
  case None
  then show ?thesis
    by (simp add: Configuration_getValue_eq forResource_no_workspace workspace_byResource)
next
  case (Some ws)
  have "getValue (merge (folder_base c ws r) [mem']) (Some k) = getValue (folder_base c ws r) (Some k)"
    using getValue_merge_other_absent[OF absent clear] by (simp add: merge_Cons merge_Nil)
  then have "getValue (apply_policy (policyConfiguration c) (Some k)
                         (merge (folder_base c ws r) [mem'])) (Some k)
           = getValue (apply_policy (policyConfiguration c) (Some k) (folder_base c ws r)) (Some k)"
    by (rule apply_policy_cong)
  then show ?thesis
    by (simp add: Some Configuration_getValue_eq forResource_with_resource[OF res]
          folder_base_byResource update_conv delete_conv noid project_override_def)
qed

text \<open>
  C10, amended: for a non-empty key \<open>k\<close> listed among the keys of the targeted memory model
  (the global one, or the one of the resource), with no scalar of that model above the path
  of \<open>k\<close>, \<^verbatim>\<open>updateValue\<close> with an undefined value stores \<^verbatim>\<open>removeValue(k)\<close> of the model:
  one listing of \<open>k\<close> is gone and the model no longer defines \<open>k\<close>, nothing being stored
  for it. A \<^verbatim>\<open>getValue\<close> for \<open>k\<close> without override identifier that follows (without resource
  or workspace after a global update, for the same resource after a per-resource update)
  returns what it returns without that memory model. Any defined value, \<^verbatim>\<open>null\<close> included,
  goes to \<^verbatim>\<open>setValue\<close> instead.
\<close>

theorem updateValue_undefined_removes:
  assumes listed: "k \<in> set (keys (memory_target c res))" and ne: "k \<noteq> []"
    and clear: "\<not> scalar_above (contents (memory_target c res)) k"
  shows "Configuration_updateValue c k None res
           = Inr (store_memory_target c res (removeValue (memory_target c res) k))
       \<and> keys (removeValue (memory_target c res) k) = remove1 k (keys (memory_target c res))
       \<and> getValue (removeValue (memory_target c res) k) (Some k) = None
       \<and> (overrideIdentifier ovr = None
            \<and> (case res of None \<Rightarrow> resource ovr = None \<or> workspace = None
                          | Some r \<Rightarrow> resource ovr = Some r) \<longrightarrow>
          result_value (Configuration_getValue
              (store_memory_target c res (removeValue (memory_target c res) k)) (Some k) ovr workspace)
          = result_value (Configuration_getValue
              (without_memory_target
                 (store_memory_target c res (removeValue (memory_target c res) k)) res)
              (Some k) ovr workspace))
       \<and> Configuration_updateValue c k (Some x) res
           = map_sum id (store_memory_target c res) (setValue (memory_target c res) k x)"
proof -
  let ?m = "memory_target c res"
  have 1: "Configuration_updateValue c k None res = Inr (store_memory_target c res (removeValue ?m k))"
    by (simp add: Configuration_updateValue_def memory_target_def store_memory_target_def
             split: option.splits)
  have 2: "keys (removeValue ?m k) = remove1 k (keys ?m)"
    using listed by (simp add: removeValue_def)
  have 3: "getValue (removeValue ?m k) (Some k) = None"
    using listed ne by (rule removeValue_absent)
  have 4: "\<not> scalar_above (contents (removeValue ?m k)) k"
    using clear by (rule removeValue_no_scalar)
  have 5: "result_value (Configuration_getValue
              (store_memory_target c res (removeValue ?m k)) (Some k) ovr workspace)
          = result_value (Configuration_getValue
              (without_memory_target (store_memory_target c res (removeValue ?m k)) res)
              (Some k) ovr workspace)"
    if "overrideIdentifier ovr = None"
      and "case res of None \<Rightarrow> resource ovr = None \<or> workspace = None
                     | Some r \<Rightarrow> resource ovr = Some r"
  proof (cases res)
    case None
    with that fallback_global[OF 3 4, of ovr workspace c] show ?thesis
      by (simp add: store_memory_target_def without_memory_target_def)
  next
    case (Some r)
    with that fallback_resource[OF 3 4, of ovr r c workspace] show ?thesis
      by (simp add: store_memory_target_def without_memory_target_def)
  qed
  have 6: "Configuration_updateValue c k (Some x) res
           = map_sum id (store_memory_target c res) (setValue ?m k x)"
    by (cases "setValue ?m k x")
       (simp_all add: Configuration_updateValue_def memory_target_def store_memory_target_def
             split: option.splits)
  from 1 2 3 5 6 show ?thesis by blast
qed

text \<open>
  C10 fails as stated: \<^verbatim>\<open>removeValue\<close> returns at once for a key that is not listed in
  \<^verbatim>\<open>keys\<close>. With \<open>a.b\<close> set in memory, removing \<open>a\<close> changes nothing, and \<^verbatim>\<open>getValue\<close>
  for \<open>a\<close> still answers from the memory layer, where the lower layers have no value.
\<close>

theorem updateValue_undefined_removes_counterexample:
  "Configuration_updateValue cfg_memory_ab ''a'' None None = Inr cfg_memory_ab
   \<and> result_value (Configuration_getValue cfg_memory_ab (Some ''a'') no_overrides None)
       = Inr (Some (JObj [(''b'', JNum 1)]))
   \<and> result_value (Configuration_getValue (cfg_memory_ab\<lparr>memoryConfiguration := createEmptyModel\<rparr>)
         (Some ''a'') no_overrides None) = Inr None"
  by (simp add: cfg_memory_ab_def example_configs example_layers config_eval model_eval update_eval)

theorem updateValue_undefined_removes_witness:
  "''a.b'' \<in> set (keys (memory_target cfg_memory_ab7 None))
   \<and> \<not> scalar_above (contents (memory_target cfg_memory_ab7 None)) ''a.b''
   \<and> result_value (Configuration_getValue cfg_memory_ab7 (Some ''a.b'') no_overrides None)
       = Inr (Some (JNum 7))
   \<and> Configuration_updateValue cfg_memory_ab7 ''a.b'' None None
       = Inr (cfg_memory_ab7\<lparr>memoryConfiguration := createEmptyModel,
                              workspaceConsolidatedConfiguration := None\<rparr>)
   \<and> result_value (Configuration_getValue
         (cfg_memory_ab7\<lparr>memoryConfiguration := createEmptyModel,
                          workspaceConsolidatedConfiguration := None\<rparr>)
         (Some ''a.b'') no_overrides None) = Inr (Some (JNum 1))
   \<and> Configuration_updateValue cfg_memory_ab7 ''a.b'' (Some JNull) None
       = Inr (cfg_memory_ab7\<lparr>memoryConfiguration :=
                 \<lparr>contents = [(''a'', JObj [(''b'', JNull)])], keys = [''a.b''], overrides = []\<rparr>,
               workspaceConsolidatedConfiguration := None\<rparr>)
   \<and> ''a.b'' \<in> set (keys (memory_target cfg_memory_ab7 (Some ''/f/x'')))
   \<and> Configuration_updateValue cfg_memory_ab7 ''a.b'' None (Some ''/f/x'')
       = Inr (cfg_memory_ab7\<lparr>memoryConfigurationByResource := [(''/f/x'', createEmptyModel)]\<rparr>)"
proof -
  have h1: "''a.b'' \<in> set (keys (memory_target cfg_memory_ab7 res))"
    if "res = None \<or> res = Some ''/f/x''" for res
    using that by (auto simp: target_eval cfg_memory_ab7_def example_configs)
  have h2: "''a.b'' \<noteq> []" by simp
  have h3: "\<not> scalar_above (contents (memory_target cfg_memory_ab7 res)) ''a.b''"
    if "res = None \<or> res = Some ''/f/x''" for res
    using that by (auto simp: target_eval cfg_memory_ab7_def example_configs scalar_above_def)
  have r: "removeValue layer_ab7 ''a.b'' = createEmptyModel"
    by (simp add: example_configs update_eval createEmptyModel_def)
  have s: "setValue layer_ab7 ''a.b'' JNull
             = Inr \<lparr>contents = [(''a'', JObj [(''b'', JNull)])], keys = [''a.b''], overrides = []\<rparr>"
    by (simp add: example_configs update_eval)
  have g: "result_value (Configuration_getValue cfg_memory_ab7 (Some ''a.b'') no_overrides None)
       = Inr (Some (JNum 7))"
    "result_value (Configuration_getValue
         (cfg_memory_ab7\<lparr>workspaceConsolidatedConfiguration := None,
                          memoryConfiguration := createEmptyModel\<rparr>)
         (Some ''a.b'') no_overrides None) = Inr (Some (JNum 1))"
    by (simp_all add: cfg_memory_ab7_def example_configs example_layers config_eval model_eval)
  from updateValue_undefined_removes[OF h1 h2 h3, where res=None and ovr=no_overrides
         and workspace=None and x=JNull]
       updateValue_undefined_removes[OF h1 h2 h3, where res="Some ''/f/x''" and ovr=in_folder_f
         and workspace=None and x=JNull]
       h1[of None] h3[of None] h1[of "Some ''/f/x''"] g r s
  show ?thesis
    by (simp add: target_eval cfg_memory_ab7_def cfg_folder_def cfg_empty_def no_overrides_def)
qed

section \<open>Default values in the registry\<close>












text \<open>
  When the provenance so far is a single extension, the source returns \<^verbatim>\<open>undefined\<close> and
  the contributed object is dropped: here the third contribution leaves the default as the
  second one made it.
\<close>

lemma registerDefaultConfigurations_contribution_dropped:
  "default_after (registerDefaultConfigurations new_ConfigurationRegistry defaults_scalar_then_objects) ''k''
     = Inr (Some \<lparr>dvalue = JObj [(''x'', JNum 1)], dsource = Some (ExtensionSource ''ext2'')\<rparr>)"
  by (simp add: defaults_scalar_then_objects_def registry_eval)

text \<open>
  The key \<open>valueOf\<close> is not registered, and read from the plain object of the registry it
  is a function all the same: the second contributed object replaces the first, with the
  contributing extension as its provenance.
\<close>

lemma registerDefaultConfigurations_inherited_name:
  "default_after (registerDefaultConfigurations new_ConfigurationRegistry defaults_valueOf) ''valueOf''
     = Inr (Some \<lparr>dvalue = JObj [(''b'', JNum 2)], dsource = Some (ExtensionSource ''ext2'')\<rparr>)"
  by (simp add: defaults_valueOf_def registry_eval)

section \<open>Registration of a batch of properties\<close>









lemma get_property_defined:
  "get_property ob key \<noteq> Undefined \<longleftrightarrow> map_of ob key \<noteq> None \<or> key \<in> set object_prototype_members"
  by (simp add: get_property_def split: option.splits)








text \<open>
  The plain object of the registry answers for the names it inherits: on the empty
  registry \<open>toString\<close> is refused as already registered. A key of white space only, here the
  no-break space, is refused as empty.
\<close>

lemma validateProperty_inherited_name:
  "validateProperty new_ConfigurationRegistry ''toString'' plain_property
     = Some (''Cannot register '' @ [CHR 0x27] @ ''toString'' @ [CHR 0x27]
             @ ''. This property is already registered.'')
   \<and> validateProperty new_ConfigurationRegistry [CHR 0xA0] plain_property
     = Some ''Cannot register an empty property''"
  by (simp add: register_eval)





end
